theory Spec2Isabelle
  imports Main "HOL-Library.AList"
begin

section \<open>The KeyEnv client (src/client.ts) as a shallow embedding\<close>

text \<open>
  The client is a TypeScript class whose methods await the global \<open>fetch\<close>, read
  \<open>Date.now()\<close> and mutate one private map, \<open>secretsCache\<close>. The embedding keeps the
  class's fields in the record \<open>KeyEnv\<close>, what the class reaches outside itself (the
  requests handed to \<open>fetch\<close> and the clock) in the record \<open>host\<close>, and passes both
  explicitly. A rejected promise is the left summand of a result, a resolved one the
  right summand. Strings are byte lists; every character the code inspects is ASCII.
\<close>

subsection \<open>JavaScript values\<close>

text \<open>
  Values read from a response body. \<open>JUndefined\<close> is JavaScript's \<open>undefined\<close>: what a
  missing property reads as and what a 204 response resolves to. Numbers are integers
  (in the range where JavaScript prints them as plain decimal digits). An object is its
  list of properties in order, read by the first entry of a name.
\<close>

datatype json =
    JUndefined
  | JNull
  | JBool bool
  | JNum int
  | JStr string
  | JArr "json list"
  | JObj "(string \<times> json) list"

text \<open>The class \<open>KeyEnvError\<close> of types.ts: message, status, code, details.\<close>

record KeyEnvError =
  message :: string
  status :: int
  code :: json
  details :: json

text \<open>
  Anything JavaScript can throw: a \<open>KeyEnvError\<close> (the typed error), another \<open>Error\<close> object with its
  \<open>name\<close> and \<open>message\<close>, or a value that is not an \<open>Error\<close>.
\<close>

datatype exn =
    Typed KeyEnvError
  | JsError string string
  | NonError json

definition nullish :: "json \<Rightarrow> bool" where
  "nullish v = (v = JUndefined \<or> v = JNull)"

text \<open>The truthiness test of \<open>body ? ... : ...\<close> and of \<open>if (cached)\<close>.\<close>

fun truthy :: "json \<Rightarrow> bool" where
  "truthy JUndefined = False"
| "truthy JNull = False"
| "truthy (JBool b) = b"
| "truthy (JNum n) = (n \<noteq> 0)"
| "truthy (JStr s) = (s \<noteq> [])"
| "truthy (JArr xs) = True"
| "truthy (JObj fs) = True"

text \<open>
  The property read \<open>v.k\<close> for the names the client reads (\<open>data\<close>, \<open>error\<close>, \<open>code\<close>,
  \<open>details\<close>): on \<open>undefined\<close> and \<open>null\<close> it throws a TypeError (the message is Node's),
  on an object it is the property or \<open>undefined\<close>, on any other value \<open>undefined\<close>.
\<close>

fun member :: "json \<Rightarrow> string \<Rightarrow> json" where
  "member (JObj fs) k = (case map_of fs k of Some v \<Rightarrow> v | None \<Rightarrow> JUndefined)"
| "member v k = JUndefined"

definition type_error :: "json \<Rightarrow> string \<Rightarrow> exn" where
  "type_error v k =
     JsError ''TypeError''
       (''Cannot read properties of '' @ (if v = JNull then ''null'' else ''undefined'')
          @ '' (reading '' @ [CHR 0x27] @ k @ [CHR 0x27] @ '')'')"

definition get_prop :: "json \<Rightarrow> string \<Rightarrow> exn + json" where
  "get_prop v k = (if nullish v then Inl (type_error v k) else Inr (member v k))"

text \<open>Decimal digits of a natural number and of an integer.\<close>

fun digits :: "nat \<Rightarrow> string" where
  "digits n =
     (if n < 10 then [''0123456789'' ! n]
      else digits (n div 10) @ [''0123456789'' ! (n mod 10)])"

declare digits.simps [simp del]

definition show_int :: "int \<Rightarrow> string" where
  "show_int i = (if i < 0 then CHR ''-'' # digits (nat (- i)) else digits (nat i))"

fun join :: "string \<Rightarrow> string list \<Rightarrow> string" where
  "join sep [] = []"
| "join sep [x] = x"
| "join sep (x # y # ys) = x @ sep @ join sep (y # ys)"

text \<open>
  JavaScript's conversion of a value to a string, which \<open>Error\<close>'s constructor applies
  to its message: an array joins its elements with commas, \<open>null\<close> and \<open>undefined\<close>
  elements as empty strings.
\<close>

fun js_String :: "json \<Rightarrow> string" where
  "js_String JUndefined = ''undefined''"
| "js_String JNull = ''null''"
| "js_String (JBool b) = (if b then ''true'' else ''false'')"
| "js_String (JNum n) = show_int n"
| "js_String (JStr s) = s"
| "js_String (JArr xs) =
     join '','' (map (\<lambda>x. if x = JUndefined \<or> x = JNull then [] else js_String x) xs)"
| "js_String (JObj fs) = ''[object Object]''"

text \<open>
  \<open>new KeyEnvError(message, status, code, details)\<close>: \<open>super(message)\<close> leaves the
  message empty when the argument is \<open>undefined\<close> and converts it to a string otherwise.
\<close>

definition new_KeyEnvError :: "json \<Rightarrow> int \<Rightarrow> json \<Rightarrow> json \<Rightarrow> KeyEnvError" where
  "new_KeyEnvError msg st c d =
     \<lparr>message = (if msg = JUndefined then [] else js_String msg),
      status = st, code = c, details = d\<rparr>"

subsection \<open>The host: fetch and the clock\<close>

text \<open>
  What \<open>request\<close> hands to \<open>fetch\<close>: the method, the URL, the three headers, the value
  given to \<open>JSON.stringify\<close> (absent when the body is falsy; the serialisation, which
  leaves out a property whose value is \<open>undefined\<close>, is the host's) and the delay after
  which the abort signal fires.
\<close>

record wire_request =
  http_method :: string
  url :: string
  headers :: "(string \<times> string) list"
  body :: "json option"
  signal_timeout :: int

text \<open>
  A \<open>Response\<close> as the client reads it: the status, the status text and what
  \<open>response.json()\<close> settles to (rejected with a thrown value, or the parsed body).
  \<open>response.ok\<close> is, by the Fetch standard, a status from 200 to 299.
\<close>

record response =
  resp_status :: int
  statusText :: string
  resp_json :: "exn + json"

definition ok :: "response \<Rightarrow> bool" where
  "ok r = (200 \<le> resp_status r \<and> resp_status r \<le> 299)"

datatype fetch_outcome = Resolved response | Rejected exn

text \<open>
  The host keeps the requests sent so far and the reading of \<open>Date.now()\<close> in
  milliseconds. The network is a parameter: from the host's state and a request it
  gives the outcome of \<open>fetch\<close> and the clock's reading when the promise settles.
\<close>

record host =
  sent :: "wire_request list"
  now :: int

type_synonym network = "host \<Rightarrow> wire_request \<Rightarrow> fetch_outcome \<times> int"

definition fetch :: "network \<Rightarrow> wire_request \<Rightarrow> host \<Rightarrow> fetch_outcome \<times> host" where
  "fetch net req h =
     (case net h req of (out, t) \<Rightarrow> (out, h\<lparr>sent := sent h @ [req], now := t\<rparr>))"

subsection \<open>The class\<close>

record cache_entry =
  secrets :: json
  expiresAt :: int

record KeyEnv =
  token :: string
  baseUrl :: string
  timeout :: int
  cacheTtl :: int
  secretsCache :: "(string \<times> cache_entry) list"

subsection \<open>The constructor\<close>

text \<open>
  The options of the constructor and the two environment variables it reads. The
  host's \<open>parseInt\<close> is a parameter. Where \<open>parseInt\<close> gives \<open>NaN\<close> the parameter is
  taken to give 0: the client only ever tests \<open>cacheTtl > 0\<close>, which is false for both.
  \<open>options.timeout || DEFAULT_TIMEOUT\<close> takes the default for 0 as well.
\<close>

record KeyEnvOptions =
  opt_token :: string
  opt_baseUrl :: "string option"
  opt_timeout :: "int option"
  opt_cacheTtl :: "int option"

record process_env =
  KEYENV_API_URL :: "string option"
  KEYENV_CACHE_TTL :: "string option"

definition DEFAULT_BASE_URL :: string where
  "DEFAULT_BASE_URL = ''https://api.keyenv.dev''"

definition DEFAULT_TIMEOUT :: int where
  "DEFAULT_TIMEOUT = 30000"

text \<open>\<open>s.replace(/\/+$/, '')\<close>: the slashes at the end are dropped.\<close>

definition strip_slashes :: "string \<Rightarrow> string" where
  "strip_slashes s = rev (dropWhile (\<lambda>c. c = CHR ''/'') (rev s))"

definition constructor :: "(string \<Rightarrow> int) \<Rightarrow> process_env \<Rightarrow> KeyEnvOptions \<Rightarrow> exn + KeyEnv" where
  "constructor parseInt env options =
     (if opt_token options = [] then Inl (JsError ''Error'' ''KeyEnv token is required'')
      else Inr
        \<lparr>token = opt_token options,
         baseUrl = strip_slashes
           (case opt_baseUrl options of
              Some u \<Rightarrow> u
            | None \<Rightarrow> (case KEYENV_API_URL env of Some u \<Rightarrow> u | None \<Rightarrow> DEFAULT_BASE_URL)),
         timeout =
           (case opt_timeout options of
              Some t \<Rightarrow> if t = 0 then DEFAULT_TIMEOUT else t
            | None \<Rightarrow> DEFAULT_TIMEOUT),
         cacheTtl =
           (case opt_cacheTtl options of
              Some t \<Rightarrow> t
            | None \<Rightarrow>
                (case KEYENV_CACHE_TTL env of
                   Some v \<Rightarrow> if v = [] then 0 else parseInt v
                 | None \<Rightarrow> 0)),
         secretsCache = []\<rparr>)"

subsection \<open>The request pipeline\<close>

text \<open>The \<open>catch\<close> block of \<open>request\<close>.\<close>

fun request_catch :: "exn \<Rightarrow> exn" where
  "request_catch (Typed e) = Typed e"
| "request_catch (JsError name msg) =
     (if name = ''AbortError''
      then Typed (new_KeyEnvError (JStr ''Request timeout'') 408 JUndefined JUndefined)
      else Typed (new_KeyEnvError (JStr msg) 0 JUndefined JUndefined))"
| "request_catch (NonError v) =
     Typed (new_KeyEnvError (JStr ''Network error'') 0 JUndefined JUndefined)"

definition wire :: "KeyEnv \<Rightarrow> string \<Rightarrow> string \<Rightarrow> json \<Rightarrow> wire_request" where
  "wire this meth path bdy =
     \<lparr>http_method = meth,
      url = baseUrl this @ path,
      headers = [(''Authorization'', ''Bearer '' @ token this),
                 (''Content-Type'', ''application/json''),
                 (''User-Agent'', ''keyenv-node/1.0.0'')],
      body = (if truthy bdy then Some bdy else None),
      signal_timeout = timeout this\<rparr>"

text \<open>
  \<open>request\<close>. A non-ok response throws a \<open>KeyEnvError\<close> inside the \<open>try\<close>; reading
  \<open>errorData.error\<close> on a \<open>null\<close> body throws a TypeError there too, and both pass
  through the \<open>catch\<close> block. The last statement, \<open>return response.json()\<close>, returns the
  promise without awaiting it, so its rejection leaves \<open>request\<close> as it is, uncaught.
\<close>

definition request :: "network \<Rightarrow> KeyEnv \<Rightarrow> string \<Rightarrow> string \<Rightarrow> json \<Rightarrow> host \<Rightarrow> (exn + json) \<times> host" where
  "request net this meth path bdy h =
     (case fetch net (wire this meth path bdy) h of
        (Rejected x, h') \<Rightarrow> (Inl (request_catch x), h')
      | (Resolved r, h') \<Rightarrow>
          if \<not> ok r then
            (let errorData =
               (case resp_json r of
                  Inr v \<Rightarrow> v
                | Inl x \<Rightarrow> JObj [(''error'', JStr (statusText r))])
             in case get_prop errorData ''error'' of
                  Inl x \<Rightarrow> (Inl (request_catch x), h')
                | Inr msg \<Rightarrow>
                    (Inl (request_catch (Typed (new_KeyEnvError msg (resp_status r)
                            (member errorData ''code'') (member errorData ''details'')))), h'))
          else if resp_status r = 204 then (Inr JUndefined, h')
          else (resp_json r, h'))"

subsection \<open>The export cache\<close>

definition getCacheKey :: "string \<Rightarrow> string \<Rightarrow> string" where
  "getCacheKey projectId environment = projectId @ '':'' @ environment"

text \<open>\<open>key.startsWith(p)\<close>.\<close>

fun startsWith :: "string \<Rightarrow> string \<Rightarrow> bool" where
  "startsWith s [] = True"
| "startsWith [] (c # p) = False"
| "startsWith (x # s) (c # p) = (x = c \<and> startsWith s p)"

text \<open>
  The loop of \<open>clearCache\<close> over \<open>secretsCache.keys()\<close>: each key that starts with the
  project's prefix is deleted from the map.
\<close>

primrec clear_project :: "string list \<Rightarrow> string \<Rightarrow> (string \<times> cache_entry) list \<Rightarrow> (string \<times> cache_entry) list" where
  "clear_project [] pre c = c"
| "clear_project (key # keys) pre c =
     clear_project keys pre (if startsWith key pre then AList.delete key c else c)"

text \<open>
  \<open>clearCache(projectId?, environment?)\<close>. An argument left out is \<open>None\<close>; the tests
  \<open>projectId && environment\<close> and \<open>projectId\<close> are false for an empty string as well.
\<close>

definition given :: "string option \<Rightarrow> bool" where
  "given a = (case a of None \<Rightarrow> False | Some s \<Rightarrow> s \<noteq> [])"

definition arg :: "string option \<Rightarrow> string" where
  "arg a = (case a of None \<Rightarrow> ''undefined'' | Some s \<Rightarrow> s)"

definition clearCache :: "string option \<Rightarrow> string option \<Rightarrow> KeyEnv \<Rightarrow> KeyEnv" where
  "clearCache projectId environment this =
     (if given projectId \<and> given environment then
        this\<lparr>secretsCache := AList.delete (getCacheKey (arg projectId) (arg environment)) (secretsCache this)\<rparr>
      else if given projectId then
        this\<lparr>secretsCache :=
          clear_project (map fst (secretsCache this)) (arg projectId @ '':'') (secretsCache this)\<rparr>
      else this\<lparr>secretsCache := []\<rparr>)"

subsection \<open>Secrets\<close>

text \<open>
  The tail of \<open>exportSecrets\<close> after the cache check: the request, the store when the
  TTL is positive (\<open>response.data\<close> is read first, then \<open>Date.now()\<close>), the return of
  \<open>response.data\<close>.
\<close>

definition export_path :: "string \<Rightarrow> string \<Rightarrow> string" where
  "export_path projectId environment =
     ''/api/v1/projects/'' @ projectId @ ''/environments/'' @ environment @ ''/secrets/export''"

definition export_fetch :: "network \<Rightarrow> string \<Rightarrow> string \<Rightarrow> KeyEnv \<Rightarrow> host \<Rightarrow> (exn + json) \<times> KeyEnv \<times> host" where
  "export_fetch net projectId environment this h =
     (case request net this ''GET'' (export_path projectId environment) JUndefined h of
        (Inl x, h') \<Rightarrow> (Inl x, this, h')
      | (Inr response, h') \<Rightarrow>
          if cacheTtl this > 0 then
            (case get_prop response ''data'' of
               Inl x \<Rightarrow> (Inl x, this, h')
             | Inr d \<Rightarrow>
                 (get_prop response ''data'',
                  this\<lparr>secretsCache :=
                    AList.update (getCacheKey projectId environment)
                      \<lparr>secrets = d, expiresAt = now h' + cacheTtl this * 1000\<rparr>
                      (secretsCache this)\<rparr>,
                  h'))
          else (get_prop response ''data'', this, h'))"

definition exportSecrets :: "network \<Rightarrow> string \<Rightarrow> string \<Rightarrow> KeyEnv \<Rightarrow> host \<Rightarrow> (exn + json) \<times> KeyEnv \<times> host" where
  "exportSecrets net projectId environment this h =
     (let cacheKey = getCacheKey projectId environment in
      if cacheTtl this > 0 then
        (case map_of (secretsCache this) cacheKey of
           Some cached \<Rightarrow>
             if now h < expiresAt cached then (Inr (secrets cached), this, h)
             else export_fetch net projectId environment
                    (this\<lparr>secretsCache := AList.delete cacheKey (secretsCache this)\<rparr>) h
         | None \<Rightarrow> export_fetch net projectId environment this h)
      else export_fetch net projectId environment this h)"

text \<open>An optional string argument as the property of a request body.\<close>

definition opt_str :: "string option \<Rightarrow> json" where
  "opt_str a = (case a of None \<Rightarrow> JUndefined | Some s \<Rightarrow> JStr s)"

definition secrets_path :: "string \<Rightarrow> string \<Rightarrow> string" where
  "secrets_path projectId environment =
     ''/api/v1/projects/'' @ projectId @ ''/environments/'' @ environment @ ''/secrets''"

text \<open>
  \<open>createSecret\<close>, \<open>updateSecret\<close>, \<open>bulkImport\<close>: the request, then
  \<open>this.clearCache(projectId, environment)\<close>, then \<open>return response.data\<close>.
\<close>

definition clear_then_data :: "string \<Rightarrow> string \<Rightarrow> KeyEnv \<Rightarrow> (exn + json) \<times> host \<Rightarrow> (exn + json) \<times> KeyEnv \<times> host" where
  "clear_then_data projectId environment this r =
     (case r of
        (Inl x, h') \<Rightarrow> (Inl x, this, h')
      | (Inr response, h') \<Rightarrow>
          (get_prop response ''data'', clearCache (Some projectId) (Some environment) this, h'))"

text \<open>The bodies \<open>{ key, value, description }\<close> and \<open>{ value, description }\<close>.\<close>

definition create_body :: "string \<Rightarrow> string \<Rightarrow> string option \<Rightarrow> json" where
  "create_body key val description =
     JObj [(''key'', JStr key), (''value'', JStr val), (''description'', opt_str description)]"

definition update_body :: "string \<Rightarrow> string option \<Rightarrow> json" where
  "update_body val description =
     JObj [(''value'', JStr val), (''description'', opt_str description)]"

definition createSecret :: "network \<Rightarrow> string \<Rightarrow> string \<Rightarrow> string \<Rightarrow> string \<Rightarrow> string option \<Rightarrow> KeyEnv \<Rightarrow> host \<Rightarrow> (exn + json) \<times> KeyEnv \<times> host" where
  "createSecret net projectId environment key val description this h =
     clear_then_data projectId environment this
       (request net this ''POST'' (secrets_path projectId environment)
          (create_body key val description) h)"

definition updateSecret :: "network \<Rightarrow> string \<Rightarrow> string \<Rightarrow> string \<Rightarrow> string \<Rightarrow> string option \<Rightarrow> KeyEnv \<Rightarrow> host \<Rightarrow> (exn + json) \<times> KeyEnv \<times> host" where
  "updateSecret net projectId environment key val description this h =
     clear_then_data projectId environment this
       (request net this ''PUT'' (secrets_path projectId environment @ ''/'' @ key)
          (update_body val description) h)"

text \<open>
  \<open>setSecret\<close>: the \<open>catch\<close> tests \<open>error instanceof KeyEnvError && error.status === 404\<close>
  and calls \<open>createSecret\<close>, or throws the error again.
\<close>

definition setSecret :: "network \<Rightarrow> string \<Rightarrow> string \<Rightarrow> string \<Rightarrow> string \<Rightarrow> string option \<Rightarrow> KeyEnv \<Rightarrow> host \<Rightarrow> (exn + json) \<times> KeyEnv \<times> host" where
  "setSecret net projectId environment key val description this h =
     (case updateSecret net projectId environment key val description this h of
        (Inr v, this', h') \<Rightarrow> (Inr v, this', h')
      | (Inl error, this', h') \<Rightarrow>
          (case error of
             Typed e \<Rightarrow>
               if status e = 404
               then createSecret net projectId environment key val description this' h'
               else (Inl error, this', h')
           | _ \<Rightarrow> (Inl error, this', h')))"

definition deleteSecret :: "network \<Rightarrow> string \<Rightarrow> string \<Rightarrow> string \<Rightarrow> KeyEnv \<Rightarrow> host \<Rightarrow> (exn + json) \<times> KeyEnv \<times> host" where
  "deleteSecret net projectId environment key this h =
     (case request net this ''DELETE'' (secrets_path projectId environment @ ''/'' @ key) JUndefined h of
        (Inl x, h') \<Rightarrow> (Inl x, this, h')
      | (Inr response, h') \<Rightarrow>
          (Inr JUndefined, clearCache (Some projectId) (Some environment) this, h'))"

definition getSecretHistory :: "network \<Rightarrow> string \<Rightarrow> string \<Rightarrow> string \<Rightarrow> KeyEnv \<Rightarrow> host \<Rightarrow> (exn + json) \<times> KeyEnv \<times> host" where
  "getSecretHistory net projectId environment key this h =
     (case request net this ''GET''
             (secrets_path projectId environment @ ''/'' @ key @ ''/history'') JUndefined h of
        (Inl x, h') \<Rightarrow> (Inl x, this, h')
      | (Inr response, h') \<Rightarrow> (get_prop response ''data'', this, h'))"

text \<open>
  \<open>bulkImport\<close>: the list of items goes into the body as given;
  \<open>options.overwrite ?? false\<close> is \<open>false\<close> when the option is left out.
\<close>

definition bulk_body :: "json \<Rightarrow> bool option \<Rightarrow> json" where
  "bulk_body items overwrite =
     JObj [(''secrets'', items),
           (''overwrite'', JBool (case overwrite of None \<Rightarrow> False | Some b \<Rightarrow> b))]"

definition bulkImport :: "network \<Rightarrow> string \<Rightarrow> string \<Rightarrow> json \<Rightarrow> bool option \<Rightarrow> KeyEnv \<Rightarrow> host \<Rightarrow> (exn + json) \<times> KeyEnv \<times> host" where
  "bulkImport net projectId environment items overwrite this h =
     clear_then_data projectId environment this
       (request net this ''POST'' (secrets_path projectId environment @ ''/bulk'')
          (bulk_body items overwrite) h)"

subsection \<open>Derived views of the export\<close>

text \<open>
  A TypeError the runtime raises (calling what is not a function, iterating what is
  not iterable) is written with a short description in place of the engine's text.
\<close>

definition TypeError :: "string \<Rightarrow> exn" where
  "TypeError what = JsError ''TypeError'' what"

text \<open>\<open>secrets.map((s) => [s.key, s.value])\<close> and \<open>Object.fromEntries\<close>.\<close>

fun entries :: "json list \<Rightarrow> exn + (json \<times> json) list" where
  "entries [] = Inr []"
| "entries (s # ss) =
     (case get_prop s ''key'' of
        Inl x \<Rightarrow> Inl x
      | Inr k \<Rightarrow>
          (case entries ss of
             Inl x \<Rightarrow> Inl x
           | Inr es \<Rightarrow> Inr ((k, member s ''value'') # es)))"

definition secrets_map :: "json \<Rightarrow> exn + (json \<times> json) list" where
  "secrets_map exported =
     (case exported of
        JArr xs \<Rightarrow> entries xs
      | JUndefined \<Rightarrow> Inl (type_error exported ''map'')
      | JNull \<Rightarrow> Inl (type_error exported ''map'')
      | _ \<Rightarrow> Inl (TypeError ''secrets.map is not a function''))"

definition fromEntries :: "(json \<times> json) list \<Rightarrow> json" where
  "fromEntries es = JObj (fold (\<lambda>(k, v) obj. AList.update (js_String k) v obj) es [])"

definition exportSecretsAsObject :: "network \<Rightarrow> string \<Rightarrow> string \<Rightarrow> KeyEnv \<Rightarrow> host \<Rightarrow> (exn + json) \<times> KeyEnv \<times> host" where
  "exportSecretsAsObject net projectId environment this h =
     (case exportSecrets net projectId environment this h of
        (Inl x, this', h') \<Rightarrow> (Inl x, this', h')
      | (Inr exported, this', h') \<Rightarrow>
          (case secrets_map exported of
             Inl x \<Rightarrow> (Inl x, this', h')
           | Inr es \<Rightarrow> (Inr (fromEntries es), this', h')))"

text \<open>The characters \<open>generateEnvFile\<close> looks for.\<close>

definition newline :: char where "newline = CHR 0x0A"

definition dquote :: char where "dquote = CHR 0x22"

definition squote :: char where "squote = CHR 0x27"

definition backslash :: char where "backslash = CHR 0x5C"

definition dollar :: char where "dollar = CHR 0x24"

definition space :: char where "space = CHR 0x20"

definition includes_char :: "string \<Rightarrow> char \<Rightarrow> bool" where
  "includes_char s c = (c \<in> set s)"

text \<open>\<open>s.replace(/c/g, r)\<close> for a single character \<open>c\<close>.\<close>

definition replace_all :: "char \<Rightarrow> string \<Rightarrow> string \<Rightarrow> string" where
  "replace_all c r s = concat (map (\<lambda>x. if x = c then r else [x]) s)"

definition needs_quotes :: "string \<Rightarrow> bool" where
  "needs_quotes v =
     (includes_char v newline \<or> includes_char v dquote \<or> includes_char v squote \<or> includes_char v space
      \<or> includes_char v dollar)"

definition escaped :: "string \<Rightarrow> string" where
  "escaped v =
     replace_all dollar [backslash, dollar]
       (replace_all newline [backslash, CHR ''n'']
          (replace_all dquote [backslash, dquote]
             (replace_all backslash [backslash, backslash] v)))"

text \<open>
  The body of the loop over the secrets. A string value takes one of the two branches;
  an array value answers \<open>includes\<close> by its elements and has no \<open>replace\<close>; any other
  value has no \<open>includes\<close>.
\<close>

definition secret_line :: "json \<Rightarrow> exn + string" where
  "secret_line secret =
     (case get_prop secret ''value'' of
        Inl x \<Rightarrow> Inl x
      | Inr val \<Rightarrow>
          (case val of
             JStr v \<Rightarrow>
               if needs_quotes v
               then Inr (js_String (member secret ''key'') @ ''='' @ [dquote] @ escaped v @ [dquote])
               else Inr (js_String (member secret ''key'') @ ''='' @ v)
           | JArr xs \<Rightarrow>
               if JStr [newline] \<in> set xs \<or> JStr [dquote] \<in> set xs \<or> JStr [squote] \<in> set xs
                  \<or> JStr [space] \<in> set xs \<or> JStr [dollar] \<in> set xs
               then Inl (TypeError ''value.replace is not a function'')
               else Inr (js_String (member secret ''key'') @ ''='' @ js_String val)
           | JUndefined \<Rightarrow> Inl (type_error val ''includes'')
           | JNull \<Rightarrow> Inl (type_error val ''includes'')
           | _ \<Rightarrow> Inl (TypeError ''value.includes is not a function'')))"

fun secret_lines :: "json list \<Rightarrow> exn + string list" where
  "secret_lines [] = Inr []"
| "secret_lines (s # ss) =
     (case secret_line s of
        Inl x \<Rightarrow> Inl x
      | Inr l \<Rightarrow>
          (case secret_lines ss of
             Inl x \<Rightarrow> Inl x
           | Inr ls \<Rightarrow> Inr (l # ls)))"

text \<open>\<open>for (const secret of secrets)\<close>: an array gives its elements, a string its characters.\<close>

definition iterate :: "json \<Rightarrow> exn + json list" where
  "iterate v =
     (case v of
        JArr xs \<Rightarrow> Inr xs
      | JStr s \<Rightarrow> Inr (map (\<lambda>c. JStr [c]) s)
      | _ \<Rightarrow> Inl (TypeError ''secrets is not iterable''))"

definition header :: "string \<Rightarrow> string \<Rightarrow> string list" where
  "header environment stamp =
     [''# Generated by KeyEnv'', ''# Environment: '' @ environment,
      ''# Generated at: '' @ stamp, []]"

text \<open>
  \<open>generateEnvFile\<close>. The host's \<open>new Date().toISOString()\<close> is the parameter
  \<open>toISOString\<close>, applied to the clock's reading.
\<close>

definition generateEnvFile :: "network \<Rightarrow> (int \<Rightarrow> string) \<Rightarrow> string \<Rightarrow> string \<Rightarrow> KeyEnv \<Rightarrow> host \<Rightarrow> (exn + string) \<times> KeyEnv \<times> host" where
  "generateEnvFile net toISOString projectId environment this h =
     (case exportSecrets net projectId environment this h of
        (Inl x, this', h') \<Rightarrow> (Inl x, this', h')
      | (Inr exported, this', h') \<Rightarrow>
          (case iterate exported of
             Inl x \<Rightarrow> (Inl x, this', h')
           | Inr elems \<Rightarrow>
               (case secret_lines elems of
                  Inl x \<Rightarrow> (Inl x, this', h')
                | Inr ls \<Rightarrow>
                    (Inr (join [newline] (header environment (toISOString (now h')) @ ls)
                            @ [newline]),
                     this', h'))))"

subsection \<open>Projects, environments and permissions\<close>

text \<open>A method that awaits the request and returns nothing.\<close>

definition returns_void :: "KeyEnv \<Rightarrow> (exn + json) \<times> host \<Rightarrow> (exn + json) \<times> KeyEnv \<times> host" where
  "returns_void this r =
     (case r of
        (Inl x, h') \<Rightarrow> (Inl x, this, h')
      | (Inr response, h') \<Rightarrow> (Inr JUndefined, this, h'))"

text \<open>A method that awaits the request and returns \<open>response.data\<close>.\<close>

definition returns_data :: "KeyEnv \<Rightarrow> (exn + json) \<times> host \<Rightarrow> (exn + json) \<times> KeyEnv \<times> host" where
  "returns_data this r =
     (case r of
        (Inl x, h') \<Rightarrow> (Inl x, this, h')
      | (Inr response, h') \<Rightarrow> (get_prop response ''data'', this, h'))"

definition deleteProject :: "network \<Rightarrow> string \<Rightarrow> KeyEnv \<Rightarrow> host \<Rightarrow> (exn + json) \<times> KeyEnv \<times> host" where
  "deleteProject net projectId this h =
     returns_void this (request net this ''DELETE'' (''/api/v1/projects/'' @ projectId) JUndefined h)"

definition environment_path :: "string \<Rightarrow> string \<Rightarrow> string" where
  "environment_path projectId environment =
     ''/api/v1/projects/'' @ projectId @ ''/environments/'' @ environment"

definition deleteEnvironment :: "network \<Rightarrow> string \<Rightarrow> string \<Rightarrow> KeyEnv \<Rightarrow> host \<Rightarrow> (exn + json) \<times> KeyEnv \<times> host" where
  "deleteEnvironment net projectId environment this h =
     returns_void this
       (request net this ''DELETE'' (environment_path projectId environment) JUndefined h)"

datatype EnvironmentRole = Role_none | Role_read | Role_write | Role_admin

fun role_json :: "EnvironmentRole \<Rightarrow> json" where
  "role_json Role_none = JStr ''none''"
| "role_json Role_read = JStr ''read''"
| "role_json Role_write = JStr ''write''"
| "role_json Role_admin = JStr ''admin''"

definition setPermission :: "network \<Rightarrow> string \<Rightarrow> string \<Rightarrow> string \<Rightarrow> EnvironmentRole \<Rightarrow> KeyEnv \<Rightarrow> host \<Rightarrow> (exn + json) \<times> KeyEnv \<times> host" where
  "setPermission net projectId environment user r this h =
     returns_data this
       (request net this ''PUT''
          (environment_path projectId environment @ ''/permissions/'' @ user)
          (JObj [(''role'', role_json r)]) h)"

definition deletePermission :: "network \<Rightarrow> string \<Rightarrow> string \<Rightarrow> string \<Rightarrow> KeyEnv \<Rightarrow> host \<Rightarrow> (exn + json) \<times> KeyEnv \<times> host" where
  "deletePermission net projectId environment user this h =
     returns_void this
       (request net this ''DELETE''
          (environment_path projectId environment @ ''/permissions/'' @ user) JUndefined h)"

text \<open>The caller-facing items of \<open>bulkSetPermissions\<close> and \<open>setProjectDefaults\<close>.\<close>

record user_role =
  userId :: string
  role :: EnvironmentRole

record environment_default =
  environmentName :: string
  defaultRole :: EnvironmentRole

definition permissions_body :: "user_role list \<Rightarrow> json" where
  "permissions_body permissions =
     JObj [(''permissions'',
            JArr (map (\<lambda>p. JObj [(''user_id'', JStr (userId p)), (''role'', role_json (role p))])
                    permissions))]"

definition bulkSetPermissions :: "network \<Rightarrow> string \<Rightarrow> string \<Rightarrow> user_role list \<Rightarrow> KeyEnv \<Rightarrow> host \<Rightarrow> (exn + json) \<times> KeyEnv \<times> host" where
  "bulkSetPermissions net projectId environment permissions this h =
     returns_data this
       (request net this ''PUT'' (environment_path projectId environment @ ''/permissions'')
          (permissions_body permissions) h)"

definition getMyPermissions :: "network \<Rightarrow> string \<Rightarrow> KeyEnv \<Rightarrow> host \<Rightarrow> (exn + json) \<times> KeyEnv \<times> host" where
  "getMyPermissions net projectId this h =
     (case request net this ''GET'' (''/api/v1/projects/'' @ projectId @ ''/my-permissions'')
             JUndefined h of
        (r, h') \<Rightarrow> (r, this, h'))"

definition defaults_body :: "environment_default list \<Rightarrow> json" where
  "defaults_body defaults =
     JObj [(''defaults'',
            JArr (map (\<lambda>d. JObj [(''environment_name'', JStr (environmentName d)),
                                  (''default_role'', role_json (defaultRole d))])
                    defaults))]"

definition setProjectDefaults :: "network \<Rightarrow> string \<Rightarrow> environment_default list \<Rightarrow> KeyEnv \<Rightarrow> host \<Rightarrow> (exn + json) \<times> KeyEnv \<times> host" where
  "setProjectDefaults net projectId defaults this h =
     returns_data this
       (request net this ''PUT'' (''/api/v1/projects/'' @ projectId @ ''/permissions/defaults'')
          (defaults_body defaults) h)"

text \<open>Every property name that occurs in a value, at any depth.\<close>

fun field_names :: "json \<Rightarrow> string list" where
  "field_names (JArr xs) = concat (map field_names xs)"
| "field_names (JObj fs) = concat (map (\<lambda>p. fst p # field_names (snd p)) fs)"
| "field_names v = []"

subsection \<open>Vocabulary of the properties\<close>

text \<open>
  The cache holds an entry for the pair whose expiry lies strictly after the clock's
  reading.
\<close>

definition fresh_entry :: "KeyEnv \<Rightarrow> host \<Rightarrow> string \<Rightarrow> string \<Rightarrow> bool" where
  "fresh_entry this h projectId environment =
     (case map_of (secretsCache this) (getCacheKey projectId environment) of
        Some c \<Rightarrow> now h < expiresAt c
      | None \<Rightarrow> False)"

text \<open>The separator of \<open>getCacheKey\<close>.\<close>

definition colon :: char where "colon = CHR '':''"

text \<open>
  A secret read at its declared type \<open>SecretWithValue\<close>: an object whose \<open>key\<close> and
  \<open>value\<close> are strings.
\<close>

definition as_secret :: "json \<Rightarrow> (string \<times> string) option" where
  "as_secret x =
     (case (member x ''key'', member x ''value'') of
        (JStr k, JStr v) \<Rightarrow> Some (k, v)
      | _ \<Rightarrow> None)"

text \<open>
  The rendering of a secret's line in the words of the specification: the value is
  quoted when it contains a space, a double quote, a single quote, a newline or a
  dollar sign; in a quoted value each backslash is doubled and each double quote,
  newline and dollar sign is escaped, in one pass over the characters.
\<close>

definition special :: "string \<Rightarrow> bool" where
  "special v =
     (space \<in> set v \<or> dquote \<in> set v \<or> squote \<in> set v \<or> newline \<in> set v \<or> dollar \<in> set v)"

definition escape_spec :: "string \<Rightarrow> string" where
  "escape_spec v =
     concat (map (\<lambda>c. if c = backslash then [backslash, backslash]
                       else if c = dquote then [backslash, dquote]
                       else if c = newline then [backslash, CHR ''n'']
                       else if c = dollar then [backslash, dollar]
                       else [c]) v)"

definition line_spec :: "string \<times> string \<Rightarrow> string" where
  "line_spec kv =
     (case kv of (k, v) \<Rightarrow>
        if special v then k @ ''='' @ [dquote] @ escape_spec v @ [dquote] else k @ ''='' @ v)"

text \<open>A name with a capital letter in it, as the camelCase names \<open>userId\<close> and \<open>environmentName\<close>.\<close>

definition has_capital :: "string \<Rightarrow> bool" where
  "has_capital n = (\<exists>c \<in> set n. c \<in> set ''ABCDEFGHIJKLMNOPQRSTUVWXYZ'')"

text \<open>
  The object \<open>Object.fromEntries\<close> builds from secrets whose keys and values are the
  strings \<open>kvs\<close>: each pair is set in turn, a later pair replacing the value of an
  earlier one with the same key.
\<close>

definition object_fields :: "(string \<times> string) list \<Rightarrow> (string \<times> json) list" where
  "object_fields kvs = fold (\<lambda>kv. AList.update (fst kv) (JStr (snd kv))) kvs []"

subsection \<open>Concrete clients, hosts and networks\<close>

text \<open>
  The inputs at which the properties below are instantiated: a client with the cache
  off and one with a TTL of 300 seconds, a host at clock reading 1000, responses, and
  networks that answer every request alike.
\<close>

definition client0 :: KeyEnv where
  "client0 =
     \<lparr>token = ''tok'', baseUrl = ''https://api.keyenv.dev'', timeout = 30000, cacheTtl = 0,
      secretsCache = []\<rparr>"

definition host0 :: host where
  "host0 = \<lparr>sent = [], now = 1000\<rparr>"

definition reply :: "int \<Rightarrow> string \<Rightarrow> exn + json \<Rightarrow> fetch_outcome" where
  "reply st txt b = Resolved \<lparr>resp_status = st, statusText = txt, resp_json = b\<rparr>"

definition always :: "fetch_outcome \<Rightarrow> int \<Rightarrow> network" where
  "always out t = (\<lambda>h q. (out, t))"


definition three_keys :: json where
  "three_keys =
     JObj [(''secrets'', JArr [JStr ''under secrets'']),
           (''history'', JArr [JStr ''under history'']),
           (''data'', JArr [JStr ''under data''])]"

definition default_options :: KeyEnvOptions where
  "default_options =
     \<lparr>opt_token = ''tok'', opt_baseUrl = None, opt_timeout = None, opt_cacheTtl = None\<rparr>"

definition no_env :: process_env where
  "no_env = \<lparr>KEYENV_API_URL = None, KEYENV_CACHE_TTL = None\<rparr>"

definition client300 :: KeyEnv where
  "client300 = client0\<lparr>cacheTtl := 300\<rparr>"

definition exported :: json where
  "exported = JArr [JObj [(''key'', JStr ''API_KEY''), (''value'', JStr ''sk_1'')]]"

definition cached300 :: KeyEnv where
  "cached300 =
     client300\<lparr>secretsCache := [(''proj:prod'', \<lparr>secrets = exported, expiresAt = 301200\<rparr>)]\<rparr>"

definition export_request :: wire_request where
  "export_request = wire client0 ''GET'' (export_path ''proj'' ''prod'') JUndefined"

definition stored :: json where
  "stored = JObj [(''data'', JObj [(''key'', JStr ''API_KEY''), (''version'', JNum 1)])]"

definition net_up :: network where
  "net_up = always (reply 200 ''OK'' (Inr stored)) 1200"

definition net_down :: network where
  "net_down = always (Rejected (JsError ''TypeError'' ''fetch failed'')) 1200"

definition down_error :: exn where
  "down_error =
     Typed \<lparr>message = ''fetch failed'', status = 0, code = JUndefined, details = JUndefined\<rparr>"

definition net_upsert :: network where
  "net_upsert =
     (\<lambda>h q. if http_method q = ''PUT''
            then (reply 404 ''Not Found'' (Inr (JObj [(''error'', JStr ''Secret not found'')])), 1100)
            else (reply 201 ''Created'' (Inr stored), 1200))"

definition not_found :: exn where
  "not_found =
     Typed \<lparr>message = ''Secret not found'', status = 404, code = JUndefined, details = JUndefined\<rparr>"

definition host_after :: "KeyEnv \<Rightarrow> string \<Rightarrow> string \<Rightarrow> json \<Rightarrow> host" where
  "host_after this meth path bdy = \<lparr>sent = [wire this meth path bdy], now = 1200\<rparr>"

definition put_request :: wire_request where
  "put_request = wire client0 ''PUT'' (secrets_path ''proj'' ''prod'' @ ''/'' @ ''API_KEY'')
                   (update_body ''sk_2'' None)"

definition post_request :: wire_request where
  "post_request = wire client0 ''POST'' (secrets_path ''proj'' ''prod'')
                    (create_body ''API_KEY'' ''sk_2'' None)"

definition two_projects :: KeyEnv where
  "two_projects =
     client300\<lparr>secretsCache :=
       [(''proj:prod'', \<lparr>secrets = exported, expiresAt = 301200\<rparr>),
        (''proj:dev'', \<lparr>secrets = JArr [], expiresAt = 301300\<rparr>),
        (''other:prod'', \<lparr>secrets = JArr [], expiresAt = 301400\<rparr>)]\<rparr>"

definition colliding :: KeyEnv where
  "colliding =
     client300\<lparr>secretsCache :=
       [(getCacheKey ''a:b'' ''c'', \<lparr>secrets = exported, expiresAt = 301200\<rparr>)]\<rparr>"

definition four_secrets :: "json list" where
  "four_secrets =
     [JObj [(''id'', JStr ''s1''), (''key'', JStr ''DOLLAR_VAR''), (''value'', JStr ''price=$100'')],
      JObj [(''id'', JStr ''s2''), (''key'', JStr ''WITH_SPACES''), (''value'', JStr ''hello world'')],
      JObj [(''id'', JStr ''s3''), (''key'', JStr ''SIMPLE''), (''value'', JStr ''no_special'')],
      JObj [(''id'', JStr ''s4''), (''key'', JStr ''WITH_QUOTES''),
            (''value'', JStr (''say '' @ [dquote] @ ''hello'' @ [dquote]))]]"

definition four_pairs :: "(string \<times> string) list" where
  "four_pairs =
     [(''DOLLAR_VAR'', ''price=$100''), (''WITH_SPACES'', ''hello world''),
      (''SIMPLE'', ''no_special''), (''WITH_QUOTES'', ''say '' @ [dquote] @ ''hello'' @ [dquote])]"

definition four_lines :: "string list" where
  "four_lines =
     [''DOLLAR_VAR='' @ [dquote] @ ''price='' @ [backslash, dollar] @ ''100'' @ [dquote],
      ''WITH_SPACES='' @ [dquote] @ ''hello world'' @ [dquote],
      ''SIMPLE=no_special'',
      ''WITH_QUOTES='' @ [dquote] @ ''say '' @ [backslash, dquote] @ ''hello''
         @ [backslash, dquote] @ [dquote]]"

definition stamp :: "int \<Rightarrow> string" where
  "stamp t = ''2026-01-01T00:00:01.200Z''"

definition two_users :: "user_role list" where
  "two_users = [\<lparr>userId = ''user-1'', role = Role_write\<rparr>, \<lparr>userId = ''user-2'', role = Role_read\<rparr>]"

definition two_defaults :: "environment_default list" where
  "two_defaults =
     [\<lparr>environmentName = ''development'', defaultRole = Role_write\<rparr>,
      \<lparr>environmentName = ''production'', defaultRole = Role_read\<rparr>]"

definition duplicate_keys :: "json list" where
  "duplicate_keys =
     [JObj [(''key'', JStr ''API_KEY''), (''value'', JStr ''first'')],
      JObj [(''key'', JStr ''DATABASE_URL''), (''value'', JStr ''postgres://localhost'')],
      JObj [(''key'', JStr ''API_KEY''), (''value'', JStr ''last'')]]"

definition duplicate_pairs :: "(string \<times> string) list" where
  "duplicate_pairs =
     [(''API_KEY'', ''first''), (''DATABASE_URL'', ''postgres://localhost''), (''API_KEY'', ''last'')]"

section \<open>Properties\<close>

subsection \<open>Basic facts\<close>

lemma request_sent:
  "sent (snd (request net this meth path bdy h)) = sent h @ [wire this meth path bdy]"
  by (auto simp: request_def fetch_def Let_def split: prod.splits fetch_outcome.splits sum.splits)

lemma fetch_always:
  "fetch (always out t) q h = (out, h\<lparr>sent := sent h @ [q], now := t\<rparr>)"
  by (simp add: fetch_def always_def)

lemma request_200:
  "request (always (reply 200 ''OK'' (Inr v)) t) this meth path bdy h
     = (Inr v, h\<lparr>sent := sent h @ [wire this meth path bdy], now := t\<rparr>)"
  by (simp add: request_def fetch_always reply_def ok_def)

lemma request_rejected:
  "request (always (Rejected x) t) this meth path bdy h
     = (Inl (request_catch x), h\<lparr>sent := sent h @ [wire this meth path bdy], now := t\<rparr>)"
  by (simp add: request_def fetch_always)

lemma wire_ttl [simp]: "wire (this\<lparr>cacheTtl := c\<rparr>) meth path bdy = wire this meth path bdy"
  by (simp add: wire_def)

lemma wire_cache [simp]: "wire (this\<lparr>secretsCache := c\<rparr>) meth path bdy = wire this meth path bdy"
  by (simp add: wire_def)

lemma request_cache [simp]:
  "request net (this\<lparr>secretsCache := c\<rparr>) meth path bdy h = request net this meth path bdy h"
  by (simp add: request_def)

lemma export_fetch_data:
  assumes "request net this ''GET'' (export_path p e) JUndefined h = (Inr payload, h')"
  shows "fst (export_fetch net p e this h) = get_prop payload ''data''"
  using assms by (simp add: export_fetch_def split: sum.splits)

lemma export_fetch_cache [simp]:
  "fst (export_fetch net p e (this\<lparr>secretsCache := c\<rparr>) h) = fst (export_fetch net p e this h)"
  by (simp add: export_fetch_def split: prod.splits sum.splits)

lemma exportSecrets_miss:
  assumes "\<not> (0 < cacheTtl this \<and> fresh_entry this h p e)"
  shows "fst (exportSecrets net p e this h) = fst (export_fetch net p e this h)"
  using assms
  by (auto simp: exportSecrets_def fresh_entry_def Let_def split: option.splits)

lemma export_fetch_sent:
  "sent (snd (snd (export_fetch net p e this h)))
     = sent h @ [wire this ''GET'' (export_path p e) JUndefined]"
  using request_sent [of net this "''GET''" "export_path p e" JUndefined h]
  by (auto simp: export_fetch_def split: prod.splits sum.splits)

lemma export_fetch_Inl:
  "export_fetch net p e this h = (Inl x, this', h') \<Longrightarrow> this' = this"
  by (auto simp: export_fetch_def split: prod.splits sum.splits if_splits)

lemma export_fetch_Inr:
  "0 < cacheTtl this \<Longrightarrow> export_fetch net p e this h = (Inr d, this', h') \<Longrightarrow>
     this' = this\<lparr>secretsCache :=
               AList.update (getCacheKey p e)
                 \<lparr>secrets = d, expiresAt = now h' + cacheTtl this * 1000\<rparr> (secretsCache this)\<rparr>"
  by (auto simp: export_fetch_def split: prod.splits sum.splits if_splits)

lemma export_fetch_off:
  "\<not> 0 < cacheTtl this \<Longrightarrow> fst (snd (export_fetch net p e this h)) = this"
  by (auto simp: export_fetch_def split: prod.splits sum.splits)

lemma exportSecrets_fresh:
  "0 < cacheTtl this \<Longrightarrow> map_of (secretsCache this) (getCacheKey p e) = Some c \<Longrightarrow>
     now h < expiresAt c \<Longrightarrow> exportSecrets net p e this h = (Inr (secrets c), this, h)"
  by (simp add: exportSecrets_def)

lemma exportSecrets_stale:
  assumes "0 < cacheTtl this" and "\<not> fresh_entry this h p e"
  shows "exportSecrets net p e this h
       = export_fetch net p e
           (this\<lparr>secretsCache := AList.delete (getCacheKey p e) (secretsCache this)\<rparr>) h"
proof (cases "map_of (secretsCache this) (getCacheKey p e)")
  case None
  then have "getCacheKey p e \<notin> fst ` set (secretsCache this)"
    by (simp add: map_of_eq_None_iff)
  then have "AList.delete (getCacheKey p e) (secretsCache this) = secretsCache this"
    by (rule delete_id)
  with None assms show ?thesis
    by (simp add: exportSecrets_def)
next
  case (Some c)
  with assms show ?thesis
    by (simp add: exportSecrets_def fresh_entry_def)
qed

lemma exportSecrets_off:
  "\<not> 0 < cacheTtl this \<Longrightarrow> exportSecrets net p e this h = export_fetch net p e this h"
  by (simp add: exportSecrets_def)

lemma startsWith_iff: "startsWith s pre = (\<exists>t. s = pre @ t)"
  by (induction s pre rule: startsWith.induct) auto

lemma clear_project_map_of:
  "map_of (clear_project keys pre c) k
     = (if k \<in> set keys \<and> startsWith k pre then None else map_of c k)"
  by (induction keys arbitrary: c) (auto simp: delete_conv')

lemma clear_project_all:
  "map_of (clear_project (map fst c) pre c) k = (if startsWith k pre then None else map_of c k)"
proof (cases "k \<in> set (map fst c)")
  case True
  then show ?thesis by (simp add: clear_project_map_of)
next
  case False
  then have "map_of c k = None" by (simp add: map_of_eq_None_iff)
  with False show ?thesis by (simp add: clear_project_map_of)
qed

lemma clearCache_pair:
  "map_of (secretsCache (clearCache (Some p) (Some e) this)) (getCacheKey p e) = None"
  by (simp add: clearCache_def given_def arg_def delete_conv' clear_project_all startsWith_iff
        getCacheKey_def)

lemma wire_clearCache [simp]: "wire (clearCache a b this) meth path bdy = wire this meth path bdy"
  by (simp add: clearCache_def wire_def)

lemma clear_then_data_Inr:
  "map_of (secretsCache (fst (snd (clear_then_data p e this (Inr v, h'))))) (getCacheKey p e) = None"
  by (simp add: clear_then_data_def clearCache_pair)

lemma updateSecret_sent:
  "updateSecret net p e k v d this h = (r, this1, h1) \<Longrightarrow>
     sent h1 = sent h @ [wire this ''PUT'' (secrets_path p e @ ''/'' @ k) (update_body v d)]"
  using request_sent [of net this "''PUT''" "secrets_path p e @ ''/'' @ k" "update_body v d" h]
  by (auto simp: updateSecret_def clear_then_data_def split: prod.splits sum.splits)

lemma createSecret_sent:
  "sent (snd (snd (createSecret net p e k v d this h)))
     = sent h @ [wire this ''POST'' (secrets_path p e) (create_body k v d)]"
  using request_sent [of net this "''POST''" "secrets_path p e" "create_body k v d" h]
  by (auto simp: createSecret_def clear_then_data_def split: prod.splits sum.splits)

lemma updateSecret_wire:
  "updateSecret net p e k v d this h = (r, this1, h1) \<Longrightarrow>
     wire this1 meth path bdy = wire this meth path bdy"
  by (auto simp: updateSecret_def clear_then_data_def split: prod.splits sum.splits)

lemma request_up:
  "request net_up this meth path bdy host0 = (Inr stored, host_after this meth path bdy)"
  by (simp add: net_up_def request_200 host0_def host_after_def)

lemma request_down:
  "request net_down this meth path bdy host0 = (Inl down_error, host_after this meth path bdy)"
  by (simp add: net_down_def request_rejected host0_def host_after_def down_error_def
        new_KeyEnvError_def)

lemma getCacheKey_inject:
  assumes "colon \<notin> set p1" and "colon \<notin> set p2"
  shows "(getCacheKey p1 e1 = getCacheKey p2 e2) = (p1 = p2 \<and> e1 = e2)"
proof
  assume eq: "getCacheKey p1 e1 = getCacheKey p2 e2"
  have "takeWhile (\<lambda>c. c \<noteq> colon) (getCacheKey p e) = p" if "colon \<notin> set p" for p e
    using that by (induction p) (auto simp: getCacheKey_def colon_def)
  with assms eq have "p1 = p2" by metis
  with eq show "p1 = p2 \<and> e1 = e2" by (simp add: getCacheKey_def)
qed simp

lemma startsWith_key:
  assumes "colon \<notin> set p" and "colon \<notin> set p'"
  shows "startsWith (getCacheKey p' e') (p @ '':'') = (p' = p)"
proof
  assume "startsWith (getCacheKey p' e') (p @ '':'')"
  then obtain t where "getCacheKey p' e' = getCacheKey p t"
    by (auto simp: startsWith_iff getCacheKey_def)
  with assms show "p' = p" by (simp add: getCacheKey_inject)
next
  assume "p' = p"
  then show "startsWith (getCacheKey p' e') (p @ '':'')"
    by (simp add: startsWith_iff getCacheKey_def)
qed

lemma escaped_spec: "escaped v = escape_spec v"
  by (induction v)
     (auto simp: escaped_def escape_spec_def replace_all_def backslash_def dquote_def newline_def
        dollar_def)

lemma length_escape_spec: "length v \<le> length (escape_spec v)"
  by (induction v) (auto simp: escape_spec_def)

lemma line_spec_unquoted: "(line_spec (k, v) = k @ ''='' @ v) = (\<not> special v)"
proof (cases "special v")
  case True
  have "length (dquote # escape_spec v @ [dquote]) \<noteq> length v"
    using length_escape_spec [of v] by simp
  then have "dquote # escape_spec v @ [dquote] \<noteq> v" by metis
  with True show ?thesis by (simp add: line_spec_def)
next
  case False
  then show ?thesis by (simp add: line_spec_def)
qed

lemma secret_line_typed:
  assumes "as_secret x = Some (k, v)"
  shows "secret_line x = Inr (line_spec (k, v))"
proof -
  from assms have kv: "member x ''key'' = JStr k" "member x ''value'' = JStr v"
    by (auto simp: as_secret_def split: json.splits)
  then have "\<not> nullish x" by (cases x) (auto simp: nullish_def)
  with kv show ?thesis
    by (simp add: secret_line_def get_prop_def line_spec_def needs_quotes_def includes_char_def
        special_def escaped_spec disj_ac)
qed

lemma secret_lines_typed:
  "map as_secret xs = map Some kvs \<Longrightarrow> secret_lines xs = Inr (map line_spec kvs)"
proof (induction xs arbitrary: kvs)
  case Nil
  then show ?case by simp
next
  case (Cons x xs)
  then obtain kv rest where kvs: "kvs = kv # rest" "as_secret x = Some kv"
    "map as_secret xs = map Some rest"
    by (cases kvs) auto
  with Cons.IH [of rest] secret_line_typed [of x "fst kv" "snd kv"] show ?case
    by simp
qed

lemma last_join: "last (join sep ls @ [newline]) = newline"
  by simp

lemma field_names_role [simp]: "field_names (role_json r) = []"
  by (cases r) simp_all

lemma returns_data_sent:
  "sent (snd (snd (returns_data this (request net this meth path bdy h))))
     = sent h @ [wire this meth path bdy]"
  using request_sent [of net this meth path bdy h]
  by (auto simp: returns_data_def split: prod.splits sum.splits)

lemma field_names_permissions:
  "field_names (permissions_body ps) = ''permissions'' # concat (map (\<lambda>q. [''user_id'', ''role'']) ps)"
  by (simp add: permissions_body_def comp_def)

lemma field_names_defaults:
  "field_names (defaults_body ds)
     = ''defaults'' # concat (map (\<lambda>d. [''environment_name'', ''default_role'']) ds)"
  by (simp add: defaults_body_def comp_def)

lemma entries_typed:
  "map as_secret xs = map Some kvs \<Longrightarrow>
     entries xs = Inr (map (\<lambda>kv. (JStr (fst kv), JStr (snd kv))) kvs)"
proof (induction xs arbitrary: kvs)
  case Nil
  then show ?case by simp
next
  case (Cons x xs)
  then obtain kv rest where kvs: "kvs = kv # rest" "as_secret x = Some kv"
    "map as_secret xs = map Some rest"
    by (cases kvs) auto
  from kvs(2) have m: "member x ''key'' = JStr (fst kv)" "member x ''value'' = JStr (snd kv)"
    by (auto simp: as_secret_def split: json.splits)
  then have "\<not> nullish x" by (cases x) (auto simp: nullish_def)
  with m kvs Cons.IH [of rest] show ?case
    by (simp add: get_prop_def)
qed

lemma fromEntries_typed:
  "fromEntries (map (\<lambda>kv. (JStr (fst kv), JStr (snd kv))) kvs) = JObj (object_fields kvs)"
  by (simp add: fromEntries_def object_fields_def fold_map comp_def)

lemma fold_update_map_of:
  "map_of (fold (\<lambda>kv. AList.update (fst kv) (f kv)) kvs acc) k
     = (case map_of (rev (map (\<lambda>kv. (fst kv, f kv)) kvs)) k of
          Some v \<Rightarrow> Some v
        | None \<Rightarrow> map_of acc k)"
  by (induction kvs arbitrary: acc) (auto simp: update_conv' map_add_def split: option.splits)

lemma fold_update_distinct:
  "distinct (map fst acc) \<Longrightarrow>
     distinct (map fst (fold (\<lambda>kv. AList.update (fst kv) (f kv)) kvs acc))"
  by (induction kvs arbitrary: acc) (auto simp: distinct_update)

lemma map_of_map_snd:
  "map_of (map (\<lambda>kv. (fst kv, g (snd kv))) xs) k = map_option g (map_of xs k)"
  by (induction xs) auto

lemma object_fields_map_of:
  "map_of (object_fields kvs) k = map_option JStr (map_of (rev kvs) k)"
proof -
  have "map_of (rev (map (\<lambda>kv. (fst kv, JStr (snd kv))) kvs)) k
          = map_option JStr (map_of (rev kvs) k)"
    unfolding rev_map by (rule map_of_map_snd)
  then show ?thesis
    by (simp add: object_fields_def fold_update_map_of split: option.splits del: rev_map)
qed

lemma object_fields_last:
  assumes "kvs = pre @ (k, v) # post" and "k \<notin> fst ` set post"
  shows "map_of (object_fields kvs) k = Some (JStr v)"
proof -
  from assms(2) have "map_of (rev post) k = None"
    by (simp add: map_of_eq_None_iff)
  with assms(1) show ?thesis
    by (simp add: object_fields_map_of map_add_def)
qed

lemma object_fields_absent:
  assumes "k \<notin> fst ` set kvs"
  shows "map_of (object_fields kvs) k = None"
  using assms by (simp add: object_fields_map_of map_of_eq_None_iff)

lemma returns_void_this [simp]: "fst (snd (returns_void this r)) = this"
  by (simp add: returns_void_def split: prod.splits sum.splits)

lemma returns_data_this [simp]: "fst (snd (returns_data this r)) = this"
  by (simp add: returns_data_def split: prod.splits sum.splits)

subsection \<open>C7: what the request pipeline makes of each outcome\<close>






subsection \<open>C1: the envelope key each operation unwraps\<close>

text \<open>
  C1, as the code has it. Let the request of the operation resolve to a body that is
  neither \<open>null\<close> nor \<open>undefined\<close>. Then \<open>exportSecrets\<close> (on a call that goes to the
  network: the TTL is not positive or the cache holds no fresh entry) and
  \<open>getSecretHistory\<close> return the value of the body's \<open>data\<close> field, and
  \<open>getMyPermissions\<close> returns the body itself, the top-level object that carries
  \<open>permissions\<close> and \<open>is_team_admin\<close>.
\<close>

theorem envelope_keys:
  assumes "\<not> nullish payload"
  shows
    "(\<not> (0 < cacheTtl this \<and> fresh_entry this h p e) \<longrightarrow>
        request net this ''GET'' (export_path p e) JUndefined h = (Inr payload, h') \<longrightarrow>
        fst (exportSecrets net p e this h) = Inr (member payload ''data''))
   \<and> (request net this ''GET'' (secrets_path p e @ ''/'' @ k @ ''/history'') JUndefined h
          = (Inr payload, h') \<longrightarrow>
        getSecretHistory net p e k this h = (Inr (member payload ''data''), this, h'))
   \<and> (request net this ''GET'' (''/api/v1/projects/'' @ p @ ''/my-permissions'') JUndefined h
          = (Inr payload, h') \<longrightarrow>
        getMyPermissions net p this h = (Inr payload, this, h'))"
  using assms
  by (simp add: exportSecrets_miss export_fetch_data getSecretHistory_def getMyPermissions_def
        get_prop_def)

text \<open>The three operations on a body that has a \<open>secrets\<close>, a \<open>history\<close> and a \<open>data\<close> field.\<close>

theorem envelope_keys_witness:
  "\<not> nullish three_keys
   \<and> \<not> (0 < cacheTtl client0 \<and> fresh_entry client0 host0 ''proj'' ''prod'')
   \<and> fst (exportSecrets (always (reply 200 ''OK'' (Inr three_keys)) 1200) ''proj'' ''prod'' client0 host0)
       = Inr (JArr [JStr ''under data''])
   \<and> fst (getSecretHistory (always (reply 200 ''OK'' (Inr three_keys)) 1200) ''proj'' ''prod'' ''API_KEY'' client0 host0)
       = Inr (JArr [JStr ''under data''])
   \<and> fst (getMyPermissions (always (reply 200 ''OK'' (Inr three_keys)) 1200) ''proj'' client0 host0)
       = Inr three_keys"
proof -
  have n: "\<not> nullish three_keys"
    by (simp add: nullish_def three_keys_def)
  have c: "\<not> (0 < cacheTtl client0 \<and> fresh_entry client0 host0 ''proj'' ''prod'')"
    by (simp add: client0_def)
  have m: "member three_keys ''data'' = JArr [JStr ''under data'']"
    by (simp add: three_keys_def)
  from envelope_keys [OF n, of client0 host0 "''proj''" "''prod''"
      "always (reply 200 ''OK'' (Inr three_keys)) 1200" _ "''API_KEY''"] n c m
  show ?thesis by (simp add: request_200)
qed

text \<open>
  C1 as stated fails on that body: \<open>exportSecrets\<close> returns what stands under \<open>data\<close>,
  not what stands under \<open>secrets\<close>, and \<open>getSecretHistory\<close> returns what stands under
  \<open>data\<close>, not what stands under \<open>history\<close>.
\<close>

theorem envelope_keys_counterexample:
  "fst (exportSecrets (always (reply 200 ''OK'' (Inr three_keys)) 1200) ''proj'' ''prod'' client0 host0)
     = Inr (JArr [JStr ''under data''])
   \<and> member three_keys ''secrets'' = JArr [JStr ''under secrets'']
   \<and> fst (getSecretHistory (always (reply 200 ''OK'' (Inr three_keys)) 1200) ''proj'' ''prod'' ''API_KEY'' client0 host0)
     = Inr (JArr [JStr ''under data''])
   \<and> member three_keys ''history'' = JArr [JStr ''under history'']"
  by (simp add: exportSecrets_def export_fetch_def getSecretHistory_def request_200 client0_def
        get_prop_def nullish_def three_keys_def)

subsection \<open>C2: the read and write paths of the export cache\<close>

lemma exportSecrets_paths:
  "case exportSecrets net p e this h of
     (r, this', h') \<Rightarrow>
       (0 < cacheTtl this \<longrightarrow>
          ((sent h' = sent h) = fresh_entry this h p e)
        \<and> (\<forall>c. map_of (secretsCache this) (getCacheKey p e) = Some c \<longrightarrow> now h < expiresAt c \<longrightarrow>
               r = Inr (secrets c) \<and> this' = this \<and> h' = h)
        \<and> (\<not> fresh_entry this h p e \<longrightarrow>
               sent h' = sent h @ [wire this ''GET'' (export_path p e) JUndefined])
        \<and> (\<forall>x. \<not> fresh_entry this h p e \<longrightarrow> r = Inl x \<longrightarrow>
               secretsCache this' = AList.delete (getCacheKey p e) (secretsCache this))
        \<and> (\<forall>d. \<not> fresh_entry this h p e \<longrightarrow> r = Inr d \<longrightarrow>
               map_of (secretsCache this') (getCacheKey p e)
                 = Some \<lparr>secrets = d, expiresAt = now h' + cacheTtl this * 1000\<rparr>))
     \<and> (cacheTtl this \<le> 0 \<longrightarrow>
          sent h' = sent h @ [wire this ''GET'' (export_path p e) JUndefined]
        \<and> secretsCache this' = secretsCache this)"
proof (cases "0 < cacheTtl this")
  case off: False
  obtain r this' h' where run: "export_fetch net p e this h = (r, this', h')"
    by (cases "export_fetch net p e this h") auto
  from run have "sent h' = sent h @ [wire this ''GET'' (export_path p e) JUndefined]"
    using export_fetch_sent [of net p e this h] by simp
  moreover from run off have "this' = this"
    using export_fetch_off [of this net p e h] by simp
  ultimately show ?thesis
    using off run by (simp add: exportSecrets_off)
next
  case on: True
  show ?thesis
  proof (cases "fresh_entry this h p e")
    case True
    then obtain c where c: "map_of (secretsCache this) (getCacheKey p e) = Some c" "now h < expiresAt c"
      by (auto simp: fresh_entry_def split: option.splits)
    from on c True show ?thesis
      by (simp add: exportSecrets_fresh)
  next
    case stale: False
    let ?cl = "this\<lparr>secretsCache := AList.delete (getCacheKey p e) (secretsCache this)\<rparr>"
    obtain r this' h' where run: "export_fetch net p e ?cl h = (r, this', h')"
      by (cases "export_fetch net p e ?cl h") auto
    from run have s: "sent h' = sent h @ [wire this ''GET'' (export_path p e) JUndefined]"
      using export_fetch_sent [of net p e ?cl h] by simp
    have nf: "\<And>c. map_of (secretsCache this) (getCacheKey p e) = Some c \<Longrightarrow> \<not> now h < expiresAt c"
      using stale by (simp add: fresh_entry_def)
    have f: "\<And>x. r = Inl x \<Longrightarrow> secretsCache this' = AList.delete (getCacheKey p e) (secretsCache this)"
      using run export_fetch_Inl [of net p e ?cl h _ this' h'] by auto
    have g: "\<And>d. r = Inr d \<Longrightarrow> map_of (secretsCache this') (getCacheKey p e)
                 = Some \<lparr>secrets = d, expiresAt = now h' + cacheTtl this * 1000\<rparr>"
      using run on export_fetch_Inr [of ?cl net p e h _ this' h'] by (auto simp: update_conv')
    from on stale run s nf f g show ?thesis
      by (auto simp: exportSecrets_stale)
  qed
qed

text \<open>
  C2. Let \<open>exportSecrets\<close> for a pair return \<open>r\<close> and leave the client \<open>this'\<close> and the
  host \<open>h'\<close>. With a positive TTL: no request is sent if and only if the cache holds an
  entry for the pair whose expiry lies strictly after the clock's reading, and then the
  cached list is returned and nothing changes; otherwise exactly the export request is
  sent, an entry that was there (an expired one) is removed, and it stays removed when
  the call fails; when the call succeeds with the list \<open>d\<close>, the cache holds for the
  pair the entry \<open>d\<close> with expiry the clock's reading when the response arrived plus the
  TTL times 1000 milliseconds. With a TTL of 0 or less the export request is sent and
  the cache is left as it was. A client constructed without a \<open>cacheTtl\<close> option, the
  variable \<open>KEYENV_CACHE_TTL\<close> unset, has the TTL 0.
\<close>

theorem export_cache:
  "(case exportSecrets net p e this h of
     (r, this', h') \<Rightarrow>
       (0 < cacheTtl this \<longrightarrow>
          ((sent h' = sent h) = fresh_entry this h p e)
        \<and> (\<forall>c. map_of (secretsCache this) (getCacheKey p e) = Some c \<longrightarrow> now h < expiresAt c \<longrightarrow>
               r = Inr (secrets c) \<and> this' = this \<and> h' = h)
        \<and> (\<not> fresh_entry this h p e \<longrightarrow>
               sent h' = sent h @ [wire this ''GET'' (export_path p e) JUndefined])
        \<and> (\<forall>x. \<not> fresh_entry this h p e \<longrightarrow> r = Inl x \<longrightarrow>
               secretsCache this' = AList.delete (getCacheKey p e) (secretsCache this))
        \<and> (\<forall>d. \<not> fresh_entry this h p e \<longrightarrow> r = Inr d \<longrightarrow>
               map_of (secretsCache this') (getCacheKey p e)
                 = Some \<lparr>secrets = d, expiresAt = now h' + cacheTtl this * 1000\<rparr>))
     \<and> (cacheTtl this \<le> 0 \<longrightarrow>
          sent h' = sent h @ [wire this ''GET'' (export_path p e) JUndefined]
        \<and> secretsCache this' = secretsCache this))
   \<and> (opt_cacheTtl options = None \<longrightarrow> KEYENV_CACHE_TTL env = None \<longrightarrow>
        constructor parseInt env options = Inr this0 \<longrightarrow> cacheTtl this0 = 0)"
  using exportSecrets_paths [where net = net and p = p and e = e and this = this and h = h]
  by (auto simp: constructor_def split: if_splits)

text \<open>
  A first call with TTL 300 at clock 1000 whose response arrives at 1200, a second call
  one millisecond before the expiry 301200 (served from the cache though the network is
  down), a third at 301200 exactly (the entry is expired and removed, the request
  fails), and a call with the TTL 0.
\<close>

theorem export_cache_witness:
  "0 < cacheTtl client300
   \<and> \<not> fresh_entry client300 host0 ''proj'' ''prod''
   \<and> exportSecrets (always (reply 200 ''OK'' (Inr (JObj [(''data'', exported)]))) 1200)
        ''proj'' ''prod'' client300 host0
       = (Inr exported, cached300, \<lparr>sent = [export_request], now = 1200\<rparr>)
   \<and> map_of (secretsCache cached300) (getCacheKey ''proj'' ''prod'')
       = Some \<lparr>secrets = exported, expiresAt = 1200 + 300 * 1000\<rparr>
   \<and> fresh_entry cached300 \<lparr>sent = [export_request], now = 301199\<rparr> ''proj'' ''prod''
   \<and> exportSecrets (always (Rejected (JsError ''TypeError'' ''fetch failed'')) 301199)
        ''proj'' ''prod'' cached300 \<lparr>sent = [export_request], now = 301199\<rparr>
       = (Inr exported, cached300, \<lparr>sent = [export_request], now = 301199\<rparr>)
   \<and> \<not> fresh_entry cached300 \<lparr>sent = [export_request], now = 301200\<rparr> ''proj'' ''prod''
   \<and> snd (exportSecrets (always (Rejected (JsError ''TypeError'' ''fetch failed'')) 301250)
        ''proj'' ''prod'' cached300 \<lparr>sent = [export_request], now = 301200\<rparr>)
       = (client300, \<lparr>sent = [export_request, export_request], now = 301250\<rparr>)
   \<and> opt_cacheTtl default_options = None
   \<and> KEYENV_CACHE_TTL no_env = None
   \<and> constructor (\<lambda>v. 0) no_env default_options = Inr client0
   \<and> cacheTtl client0 \<le> 0
   \<and> snd (exportSecrets (always (reply 200 ''OK'' (Inr (JObj [(''data'', exported)]))) 1200)
        ''proj'' ''prod'' client0 host0)
       = (client0, \<lparr>sent = [export_request], now = 1200\<rparr>)"
proof -
  have run1: "exportSecrets (always (reply 200 ''OK'' (Inr (JObj [(''data'', exported)]))) 1200)
        ''proj'' ''prod'' client300 host0
       = (Inr exported, cached300, \<lparr>sent = [export_request], now = 1200\<rparr>)"
    by (simp add: exportSecrets_def export_fetch_def request_200 get_prop_def nullish_def
        getCacheKey_def client300_def client0_def cached300_def host0_def export_request_def wire_def)
  have run3: "exportSecrets (always (Rejected (JsError ''TypeError'' ''fetch failed'')) 301250)
        ''proj'' ''prod'' cached300 \<lparr>sent = [export_request], now = 301200\<rparr>
       = (Inl (request_catch (JsError ''TypeError'' ''fetch failed'')), client300,
          \<lparr>sent = [export_request, export_request], now = 301250\<rparr>)"
    by (simp add: exportSecrets_def export_fetch_def request_rejected
        getCacheKey_def client300_def client0_def cached300_def export_request_def wire_def)
  have run4: "exportSecrets (always (reply 200 ''OK'' (Inr (JObj [(''data'', exported)]))) 1200)
        ''proj'' ''prod'' client0 host0
       = (Inr exported, client0, \<lparr>sent = [export_request], now = 1200\<rparr>)"
    by (simp add: exportSecrets_def export_fetch_def request_200 get_prop_def nullish_def
        client0_def host0_def export_request_def)
  have f1: "\<not> fresh_entry client300 host0 ''proj'' ''prod''"
    by (simp add: fresh_entry_def client300_def client0_def)
  have f2: "fresh_entry cached300 \<lparr>sent = [export_request], now = 301199\<rparr> ''proj'' ''prod''"
    by (simp add: fresh_entry_def cached300_def getCacheKey_def)
  have f3: "\<not> fresh_entry cached300 \<lparr>sent = [export_request], now = 301200\<rparr> ''proj'' ''prod''"
    by (simp add: fresh_entry_def cached300_def getCacheKey_def)
  have m: "map_of (secretsCache cached300) (getCacheKey ''proj'' ''prod'')
       = Some \<lparr>secrets = exported, expiresAt = 301200\<rparr>"
    by (simp add: cached300_def getCacheKey_def)
  have t: "0 < cacheTtl client300" "0 < cacheTtl cached300" "cacheTtl client0 \<le> 0"
    by (simp_all add: client300_def cached300_def client0_def)
  have s1: "map_of (secretsCache cached300) (getCacheKey ''proj'' ''prod'')
       = Some \<lparr>secrets = exported, expiresAt = 1200 + 300 * 1000\<rparr>"
    using export_cache [where net = "always (reply 200 ''OK'' (Inr (JObj [(''data'', exported)]))) 1200"
         and p = "''proj''" and e = "''prod''" and this = client300 and h = host0] run1 f1
    by (simp add: client300_def)
  have s2: "exportSecrets (always (Rejected (JsError ''TypeError'' ''fetch failed'')) 301199)
        ''proj'' ''prod'' cached300 \<lparr>sent = [export_request], now = 301199\<rparr>
       = (Inr exported, cached300, \<lparr>sent = [export_request], now = 301199\<rparr>)"
    using export_cache [where net = "always (Rejected (JsError ''TypeError'' ''fetch failed'')) 301199"
         and p = "''proj''" and e = "''prod''" and this = cached300
         and h = "\<lparr>sent = [export_request], now = 301199\<rparr>"] t(2) m
    by (cases "exportSecrets (always (Rejected (JsError ''TypeError'' ''fetch failed'')) 301199)
        ''proj'' ''prod'' cached300 \<lparr>sent = [export_request], now = 301199\<rparr>") simp
  have s3: "secretsCache (fst (snd (exportSecrets (always (Rejected (JsError ''TypeError'' ''fetch failed'')) 301250)
        ''proj'' ''prod'' cached300 \<lparr>sent = [export_request], now = 301200\<rparr>)))
       = AList.delete (getCacheKey ''proj'' ''prod'') (secretsCache cached300)"
    using export_cache [where net = "always (Rejected (JsError ''TypeError'' ''fetch failed'')) 301250"
         and p = "''proj''" and e = "''prod''" and this = cached300
         and h = "\<lparr>sent = [export_request], now = 301200\<rparr>"] t(2) f3 run3
    by simp
  have s4: "secretsCache (fst (snd (exportSecrets (always (reply 200 ''OK'' (Inr (JObj [(''data'', exported)]))) 1200)
        ''proj'' ''prod'' client0 host0))) = secretsCache client0"
    using export_cache [where net = "always (reply 200 ''OK'' (Inr (JObj [(''data'', exported)]))) 1200"
         and p = "''proj''" and e = "''prod''" and this = client0 and h = host0] t(3) run4
    by simp
  have k: "constructor (\<lambda>v. 0) no_env default_options = Inr client0"
    by (simp add: constructor_def default_options_def no_env_def client0_def strip_slashes_def
        DEFAULT_BASE_URL_def DEFAULT_TIMEOUT_def)
  have s5: "cacheTtl client0 = 0"
    using export_cache [where options = default_options and env = no_env
         and parseInt = "\<lambda>v. 0" and ?this0.0 = client0] k
    by (simp add: default_options_def no_env_def)
  from run1 run3 run4 f1 f2 f3 s1 s2 s3 s4 s5 k t show ?thesis
    by (simp add: default_options_def no_env_def)
qed

subsection \<open>C3: mutations invalidate the pair's entry\<close>

text \<open>
  C3. For each of \<open>createSecret\<close>, \<open>updateSecret\<close>, \<open>deleteSecret\<close> and \<open>bulkImport\<close>
  on a pair: when the operation's request resolves, the cache the operation leaves
  holds no entry under the pair's key, whatever the TTL; when the request is rejected
  with \<open>x\<close>, the operation is rejected with the same \<open>x\<close> and the client, its cache
  included, is as before.
\<close>

theorem mutations_invalidate:
  "(request net this ''POST'' (secrets_path p e) (create_body k v d) h = (Inr res, h') \<longrightarrow>
      map_of (secretsCache (fst (snd (createSecret net p e k v d this h)))) (getCacheKey p e) = None)
   \<and> (request net this ''POST'' (secrets_path p e) (create_body k v d) h = (Inl x, h') \<longrightarrow>
      createSecret net p e k v d this h = (Inl x, this, h'))
   \<and> (request net this ''PUT'' (secrets_path p e @ ''/'' @ k) (update_body v d) h = (Inr res, h') \<longrightarrow>
      map_of (secretsCache (fst (snd (updateSecret net p e k v d this h)))) (getCacheKey p e) = None)
   \<and> (request net this ''PUT'' (secrets_path p e @ ''/'' @ k) (update_body v d) h = (Inl x, h') \<longrightarrow>
      updateSecret net p e k v d this h = (Inl x, this, h'))
   \<and> (request net this ''DELETE'' (secrets_path p e @ ''/'' @ k) JUndefined h = (Inr res, h') \<longrightarrow>
      map_of (secretsCache (fst (snd (deleteSecret net p e k this h)))) (getCacheKey p e) = None)
   \<and> (request net this ''DELETE'' (secrets_path p e @ ''/'' @ k) JUndefined h = (Inl x, h') \<longrightarrow>
      deleteSecret net p e k this h = (Inl x, this, h'))
   \<and> (request net this ''POST'' (secrets_path p e @ ''/bulk'') (bulk_body items ow) h = (Inr res, h') \<longrightarrow>
      map_of (secretsCache (fst (snd (bulkImport net p e items ow this h)))) (getCacheKey p e) = None)
   \<and> (request net this ''POST'' (secrets_path p e @ ''/bulk'') (bulk_body items ow) h = (Inl x, h') \<longrightarrow>
      bulkImport net p e items ow this h = (Inl x, this, h'))"
  by (simp add: createSecret_def updateSecret_def deleteSecret_def bulkImport_def
        clear_then_data_def clearCache_pair)

text \<open>
  The four operations on a client whose cache holds the pair's entry, once with a
  network that answers 200 and once with a network that is down.
\<close>

theorem mutations_invalidate_witness:
  "map_of (secretsCache cached300) (getCacheKey ''proj'' ''prod'')
     = Some \<lparr>secrets = exported, expiresAt = 301200\<rparr>
   \<and> request net_up cached300 ''POST'' (secrets_path ''proj'' ''prod'')
        (create_body ''API_KEY'' ''sk_2'' None) host0
       = (Inr stored, host_after cached300 ''POST'' (secrets_path ''proj'' ''prod'')
            (create_body ''API_KEY'' ''sk_2'' None))
   \<and> map_of (secretsCache (fst (snd (createSecret net_up ''proj'' ''prod'' ''API_KEY'' ''sk_2'' None cached300 host0))))
        (getCacheKey ''proj'' ''prod'') = None
   \<and> map_of (secretsCache (fst (snd (updateSecret net_up ''proj'' ''prod'' ''API_KEY'' ''sk_2'' None cached300 host0))))
        (getCacheKey ''proj'' ''prod'') = None
   \<and> map_of (secretsCache (fst (snd (deleteSecret net_up ''proj'' ''prod'' ''API_KEY'' cached300 host0))))
        (getCacheKey ''proj'' ''prod'') = None
   \<and> map_of (secretsCache (fst (snd (bulkImport net_up ''proj'' ''prod'' (JArr []) None cached300 host0))))
        (getCacheKey ''proj'' ''prod'') = None
   \<and> request net_down cached300 ''POST'' (secrets_path ''proj'' ''prod'')
        (create_body ''API_KEY'' ''sk_2'' None) host0
       = (Inl down_error, host_after cached300 ''POST'' (secrets_path ''proj'' ''prod'')
            (create_body ''API_KEY'' ''sk_2'' None))
   \<and> createSecret net_down ''proj'' ''prod'' ''API_KEY'' ''sk_2'' None cached300 host0
       = (Inl down_error, cached300,
          host_after cached300 ''POST'' (secrets_path ''proj'' ''prod'')
            (create_body ''API_KEY'' ''sk_2'' None))
   \<and> updateSecret net_down ''proj'' ''prod'' ''API_KEY'' ''sk_2'' None cached300 host0
       = (Inl down_error, cached300,
          host_after cached300 ''PUT'' (secrets_path ''proj'' ''prod'' @ ''/'' @ ''API_KEY'')
            (update_body ''sk_2'' None))
   \<and> deleteSecret net_down ''proj'' ''prod'' ''API_KEY'' cached300 host0
       = (Inl down_error, cached300,
          host_after cached300 ''DELETE'' (secrets_path ''proj'' ''prod'' @ ''/'' @ ''API_KEY'')
            JUndefined)
   \<and> bulkImport net_down ''proj'' ''prod'' (JArr []) None cached300 host0
       = (Inl down_error, cached300,
          host_after cached300 ''POST'' (secrets_path ''proj'' ''prod'' @ ''/bulk'')
            (bulk_body (JArr []) None))"
proof -
  have m: "map_of (secretsCache cached300) (getCacheKey ''proj'' ''prod'')
     = Some \<lparr>secrets = exported, expiresAt = 301200\<rparr>"
    by (simp add: cached300_def getCacheKey_def)
  note up = mutations_invalidate [where net = net_up and this = cached300 and h = host0
      and p = "''proj''" and e = "''prod''" and k = "''API_KEY''" and v = "''sk_2''" and d = None
      and items = "JArr []" and ow = None and res = stored, unfolded request_up]
  note down = mutations_invalidate [where net = net_down and this = cached300 and h = host0
      and p = "''proj''" and e = "''prod''" and k = "''API_KEY''" and v = "''sk_2''" and d = None
      and items = "JArr []" and ow = None and x = down_error, unfolded request_down]
  from m up down show ?thesis
    by (simp add: request_up request_down)
qed

subsection \<open>C4: setSecret updates first and creates only on 404\<close>

text \<open>
  C4. \<open>setSecret\<close> runs \<open>updateSecret\<close>, which sends the PUT. If the update succeeds,
  \<open>setSecret\<close> returns its result and the PUT is the only request sent. If the update is
  rejected with a \<open>KeyEnvError\<close> of status 404, \<open>setSecret\<close> continues as \<open>createSecret\<close>
  with the same key, value and description, and the requests sent are the PUT and then
  the POST. If the update is rejected with anything else, \<open>setSecret\<close> is rejected with
  the same value and the PUT is the only request sent. So a create follows exactly on a
  404, a missing key costs two requests and an existing key one.
\<close>

theorem setSecret_upsert:
  "(updateSecret net p e k v d this h = (Inr res, this1, h1) \<longrightarrow>
      setSecret net p e k v d this h = (Inr res, this1, h1)
      \<and> sent h1 = sent h @ [wire this ''PUT'' (secrets_path p e @ ''/'' @ k) (update_body v d)])
   \<and> (updateSecret net p e k v d this h = (Inl (Typed err), this1, h1) \<longrightarrow> status err = 404 \<longrightarrow>
      setSecret net p e k v d this h = createSecret net p e k v d this1 h1
      \<and> sent (snd (snd (setSecret net p e k v d this h)))
          = sent h @ [wire this ''PUT'' (secrets_path p e @ ''/'' @ k) (update_body v d),
                      wire this ''POST'' (secrets_path p e) (create_body k v d)])
   \<and> (updateSecret net p e k v d this h = (Inl x, this1, h1) \<longrightarrow>
      (\<forall>err. x = Typed err \<longrightarrow> status err \<noteq> 404) \<longrightarrow>
      setSecret net p e k v d this h = (Inl x, this1, h1)
      \<and> sent h1 = sent h @ [wire this ''PUT'' (secrets_path p e @ ''/'' @ k) (update_body v d)])"
proof (intro conjI impI)
  assume u: "updateSecret net p e k v d this h = (Inr res, this1, h1)"
  then show "setSecret net p e k v d this h = (Inr res, this1, h1)"
    by (simp add: setSecret_def)
  from u show "sent h1 = sent h @ [wire this ''PUT'' (secrets_path p e @ ''/'' @ k) (update_body v d)]"
    by (rule updateSecret_sent)
next
  assume u: "updateSecret net p e k v d this h = (Inl (Typed err), this1, h1)"
    and s: "status err = 404"
  then show c: "setSecret net p e k v d this h = createSecret net p e k v d this1 h1"
    by (simp add: setSecret_def)
  show "sent (snd (snd (setSecret net p e k v d this h)))
          = sent h @ [wire this ''PUT'' (secrets_path p e @ ''/'' @ k) (update_body v d),
                      wire this ''POST'' (secrets_path p e) (create_body k v d)]"
    using createSecret_sent [of net p e k v d this1 h1] updateSecret_sent [OF u]
      updateSecret_wire [OF u]
    by (simp add: c)
next
  assume u: "updateSecret net p e k v d this h = (Inl x, this1, h1)"
    and n: "\<forall>err. x = Typed err \<longrightarrow> status err \<noteq> 404"
  then show "setSecret net p e k v d this h = (Inl x, this1, h1)"
    by (cases x) (simp_all add: setSecret_def)
  from u show "sent h1 = sent h @ [wire this ''PUT'' (secrets_path p e @ ''/'' @ k) (update_body v d)]"
    by (rule updateSecret_sent)
qed

text \<open>
  An existing key (the PUT is answered 200), a missing key (the PUT is answered 404,
  the POST 201) and a network that is down.
\<close>

theorem setSecret_upsert_witness:
  "updateSecret net_up ''proj'' ''prod'' ''API_KEY'' ''sk_2'' None client0 host0
     = (Inr (member stored ''data''), client0, \<lparr>sent = [put_request], now = 1200\<rparr>)
   \<and> setSecret net_up ''proj'' ''prod'' ''API_KEY'' ''sk_2'' None client0 host0
     = (Inr (member stored ''data''), client0, \<lparr>sent = [put_request], now = 1200\<rparr>)
   \<and> updateSecret net_upsert ''proj'' ''prod'' ''API_KEY'' ''sk_2'' None client0 host0
     = (Inl not_found, client0, \<lparr>sent = [put_request], now = 1100\<rparr>)
   \<and> setSecret net_upsert ''proj'' ''prod'' ''API_KEY'' ''sk_2'' None client0 host0
     = createSecret net_upsert ''proj'' ''prod'' ''API_KEY'' ''sk_2'' None client0
         \<lparr>sent = [put_request], now = 1100\<rparr>
   \<and> sent (snd (snd (setSecret net_upsert ''proj'' ''prod'' ''API_KEY'' ''sk_2'' None client0 host0)))
     = [put_request, post_request]
   \<and> fst (setSecret net_upsert ''proj'' ''prod'' ''API_KEY'' ''sk_2'' None client0 host0)
     = Inr (member stored ''data'')
   \<and> updateSecret net_down ''proj'' ''prod'' ''API_KEY'' ''sk_2'' None client0 host0
     = (Inl down_error, client0, \<lparr>sent = [put_request], now = 1200\<rparr>)
   \<and> setSecret net_down ''proj'' ''prod'' ''API_KEY'' ''sk_2'' None client0 host0
     = (Inl down_error, client0, \<lparr>sent = [put_request], now = 1200\<rparr>)"
proof -
  have c: "clearCache (Some ''proj'') (Some ''prod'') client0 = client0"
    by (simp add: clearCache_def given_def client0_def)
  have u1: "updateSecret net_up ''proj'' ''prod'' ''API_KEY'' ''sk_2'' None client0 host0
     = (Inr (member stored ''data''), client0, \<lparr>sent = [put_request], now = 1200\<rparr>)"
    by (simp add: updateSecret_def clear_then_data_def request_up host_after_def c
        put_request_def get_prop_def nullish_def stored_def)
  have u2: "updateSecret net_upsert ''proj'' ''prod'' ''API_KEY'' ''sk_2'' None client0 host0
     = (Inl not_found, client0, \<lparr>sent = [put_request], now = 1100\<rparr>)"
    by (simp add: updateSecret_def clear_then_data_def request_def fetch_def net_upsert_def
        wire_def reply_def ok_def get_prop_def nullish_def new_KeyEnvError_def not_found_def
        put_request_def host0_def)
  have c2: "fst (createSecret net_upsert ''proj'' ''prod'' ''API_KEY'' ''sk_2'' None client0
         \<lparr>sent = [put_request], now = 1100\<rparr>) = Inr (member stored ''data'')"
    by (simp add: createSecret_def clear_then_data_def request_def fetch_def net_upsert_def
        wire_def reply_def ok_def get_prop_def nullish_def stored_def)
  have u3: "updateSecret net_down ''proj'' ''prod'' ''API_KEY'' ''sk_2'' None client0 host0
     = (Inl down_error, client0, \<lparr>sent = [put_request], now = 1200\<rparr>)"
    by (simp add: updateSecret_def clear_then_data_def request_down host_after_def
        put_request_def)
  have s404: "status \<lparr>message = ''Secret not found'', status = 404, code = JUndefined,
                       details = JUndefined\<rparr> = 404"
    by simp
  have other: "\<forall>err. down_error = Typed err \<longrightarrow> status err \<noteq> 404"
    by (simp add: down_error_def)
  note a = setSecret_upsert [where net = net_up and p = "''proj''" and e = "''prod''"
      and k = "''API_KEY''" and v = "''sk_2''" and d = None and this = client0 and h = host0
      and res = "member stored ''data''" and ?this1.0 = client0
      and ?h1.0 = "\<lparr>sent = [put_request], now = 1200\<rparr>" and x = down_error
      and err = "\<lparr>message = [], status = 0, code = JUndefined, details = JUndefined\<rparr>"]
  note b = setSecret_upsert [where net = net_upsert and p = "''proj''" and e = "''prod''"
      and k = "''API_KEY''" and v = "''sk_2''" and d = None and this = client0 and h = host0
      and err = "\<lparr>message = ''Secret not found'', status = 404, code = JUndefined,
                   details = JUndefined\<rparr>" and ?this1.0 = client0
      and ?h1.0 = "\<lparr>sent = [put_request], now = 1100\<rparr>" and x = not_found
      and res = JNull]
  note c3 = setSecret_upsert [where net = net_down and p = "''proj''" and e = "''prod''"
      and k = "''API_KEY''" and v = "''sk_2''" and d = None and this = client0 and h = host0
      and x = down_error and ?this1.0 = client0
      and ?h1.0 = "\<lparr>sent = [put_request], now = 1200\<rparr>" and res = JNull
      and err = "\<lparr>message = [], status = 0, code = JUndefined, details = JUndefined\<rparr>"]
  have r1: "setSecret net_up ''proj'' ''prod'' ''API_KEY'' ''sk_2'' None client0 host0
     = (Inr (member stored ''data''), client0, \<lparr>sent = [put_request], now = 1200\<rparr>)"
    using a u1 by simp
  have r2: "setSecret net_upsert ''proj'' ''prod'' ''API_KEY'' ''sk_2'' None client0 host0
     = createSecret net_upsert ''proj'' ''prod'' ''API_KEY'' ''sk_2'' None client0
         \<lparr>sent = [put_request], now = 1100\<rparr>"
    and r2': "sent (snd (snd (setSecret net_upsert ''proj'' ''prod'' ''API_KEY'' ''sk_2'' None client0 host0)))
     = [put_request, post_request]"
    using b u2 s404 by (auto simp: not_found_def host0_def put_request_def post_request_def)
  have r3: "setSecret net_down ''proj'' ''prod'' ''API_KEY'' ''sk_2'' None client0 host0
     = (Inl down_error, client0, \<lparr>sent = [put_request], now = 1200\<rparr>)"
    using c3 u3 other by simp
  from u1 u2 u3 r1 r2 r2' r3 c2 show ?thesis
    by simp
qed

subsection \<open>C5: the keys of the export cache and manual invalidation\<close>

text \<open>
  C5, as the code has it. The key of a pair is the project identifier, a colon and the
  environment name. For project identifiers that contain no colon, two pairs have the
  same key only if they are the same pair. \<open>clearCache\<close> with a non-empty project and a
  non-empty environment removes the entry under that pair's key and no other.
  \<open>clearCache\<close> with a non-empty project alone removes the entries whose key starts
  with the project and a colon and no other: among pairs with colon-free project
  identifiers, exactly the entries of that project. \<open>clearCache\<close> with no argument
  removes every entry.
\<close>

theorem cache_keys:
  "(colon \<notin> set p1 \<longrightarrow> colon \<notin> set p2 \<longrightarrow>
      (getCacheKey p1 e1 = getCacheKey p2 e2) = (p1 = p2 \<and> e1 = e2))
   \<and> (p \<noteq> [] \<longrightarrow> e \<noteq> [] \<longrightarrow>
      map_of (secretsCache (clearCache (Some p) (Some e) this)) k
        = (if k = getCacheKey p e then None else map_of (secretsCache this) k))
   \<and> (p \<noteq> [] \<longrightarrow>
      map_of (secretsCache (clearCache (Some p) None this)) k
        = (if startsWith k (p @ '':'') then None else map_of (secretsCache this) k))
   \<and> (p \<noteq> [] \<longrightarrow> colon \<notin> set p \<longrightarrow> colon \<notin> set p' \<longrightarrow>
      map_of (secretsCache (clearCache (Some p) None this)) (getCacheKey p' e')
        = (if p' = p then None else map_of (secretsCache this) (getCacheKey p' e')))
   \<and> secretsCache (clearCache None None this) = []"
  by (simp add: getCacheKey_inject startsWith_key clearCache_def given_def arg_def delete_conv'
        clear_project_all)

text \<open>
  A cache with two environments of one project and one of another: clearing one pair,
  clearing the project, clearing all.
\<close>

theorem cache_keys_witness:
  "colon \<notin> set ''proj'' \<and> colon \<notin> set ''other''
   \<and> getCacheKey ''proj'' ''prod'' \<noteq> getCacheKey ''other'' ''prod''
   \<and> getCacheKey ''proj'' ''prod'' \<noteq> getCacheKey ''proj'' ''dev''
   \<and> map_of (secretsCache (clearCache (Some ''proj'') (Some ''prod'') two_projects)) (getCacheKey ''proj'' ''prod'') = None
   \<and> map_of (secretsCache (clearCache (Some ''proj'') (Some ''prod'') two_projects)) (getCacheKey ''proj'' ''dev'')
       = Some \<lparr>secrets = JArr [], expiresAt = 301300\<rparr>
   \<and> map_of (secretsCache (clearCache (Some ''proj'') (Some ''prod'') two_projects)) (getCacheKey ''other'' ''prod'')
       = Some \<lparr>secrets = JArr [], expiresAt = 301400\<rparr>
   \<and> startsWith (getCacheKey ''proj'' ''dev'') (''proj'' @ '':'')
   \<and> map_of (secretsCache (clearCache (Some ''proj'') None two_projects)) (getCacheKey ''proj'' ''prod'') = None
   \<and> map_of (secretsCache (clearCache (Some ''proj'') None two_projects)) (getCacheKey ''proj'' ''dev'') = None
   \<and> map_of (secretsCache (clearCache (Some ''proj'') None two_projects)) (getCacheKey ''other'' ''prod'')
       = Some \<lparr>secrets = JArr [], expiresAt = 301400\<rparr>
   \<and> secretsCache (clearCache None None two_projects) = []"
proof -
  have c: "colon \<notin> set ''proj''" "colon \<notin> set ''other''"
    by (simp_all add: colon_def)
  have n: "''proj'' \<noteq> []" "''prod'' \<noteq> []" "''other'' \<noteq> ''proj''"
    by simp_all
  have m: "map_of (secretsCache two_projects) (getCacheKey ''proj'' ''dev'')
             = Some \<lparr>secrets = JArr [], expiresAt = 301300\<rparr>"
          "map_of (secretsCache two_projects) (getCacheKey ''other'' ''prod'')
             = Some \<lparr>secrets = JArr [], expiresAt = 301400\<rparr>"
    by (simp_all add: two_projects_def getCacheKey_def)
  have s: "startsWith (getCacheKey ''proj'' ''dev'') (''proj'' @ '':'')"
    by (simp add: getCacheKey_def)
  note k1 = cache_keys [where ?p1.0 = "''proj''" and ?e1.0 = "''prod''" and ?p2.0 = "''other''"
      and ?e2.0 = "''prod''" and p = "''proj''" and e = "''prod''" and this = two_projects
      and k = "getCacheKey ''proj'' ''prod''" and p' = "''proj''" and e' = "''prod''"]
  note k2 = cache_keys [where ?p1.0 = "''proj''" and ?e1.0 = "''prod''" and ?p2.0 = "''proj''"
      and ?e2.0 = "''dev''" and p = "''proj''" and e = "''prod''" and this = two_projects
      and k = "getCacheKey ''proj'' ''dev''" and p' = "''proj''" and e' = "''dev''"]
  note k3 = cache_keys [where ?p1.0 = "''proj''" and ?e1.0 = "''prod''" and ?p2.0 = "''other''"
      and ?e2.0 = "''prod''" and p = "''proj''" and e = "''prod''" and this = two_projects
      and k = "getCacheKey ''other'' ''prod''" and p' = "''other''" and e' = "''prod''"]
  from k1 k2 k3 c n m s show ?thesis
    by auto
qed

text \<open>
  C5 as stated fails for the pairs (\<open>a:b\<close>, \<open>c\<close>) and (\<open>a\<close>, \<open>b:c\<close>): they differ and
  have the same key, so an export of the second is served, without a request, from the
  entry stored for the first; clearing the second pair, or the project \<open>a\<close>, removes the
  entry of the first.
\<close>

theorem cache_keys_counterexample:
  "(''a:b'', ''c'') \<noteq> (''a'', ''b:c'')
   \<and> getCacheKey ''a:b'' ''c'' = getCacheKey ''a'' ''b:c''
   \<and> exportSecrets net_down ''a'' ''b:c'' colliding host0 = (Inr exported, colliding, host0)
   \<and> secretsCache (clearCache (Some ''a'') (Some ''b:c'') colliding) = []
   \<and> secretsCache (clearCache (Some ''a'') None colliding) = []"
  by (simp add: getCacheKey_def exportSecrets_def colliding_def client300_def client0_def
        host0_def clearCache_def given_def arg_def)

subsection \<open>C6: the lines of the generated .env file\<close>

text \<open>
  C6. Let \<open>exportSecrets\<close> return a list of secrets whose keys and values are the
  strings \<open>kvs\<close>. Then \<open>generateEnvFile\<close> returns the header and one line per secret,
  joined by newlines, with a newline at the end. The line of a secret is \<open>KEY=value\<close>,
  unquoted, if and only if the value contains no space, double quote, single quote,
  newline or dollar sign; otherwise it is \<open>KEY="escaped"\<close>, where the escaping doubles
  backslashes and escapes double quotes, newlines and dollar signs. The four chained
  replacements of the code compute that one-pass escaping.
\<close>

theorem env_file:
  assumes "exportSecrets net p e this h = (Inr (JArr xs), this', h')"
    and "map as_secret xs = map Some kvs"
  shows "generateEnvFile net toISOString p e this h
           = (Inr (join [newline] (header e (toISOString (now h')) @ map line_spec kvs) @ [newline]),
              this', h')
         \<and> (\<forall>k v. (k, v) \<in> set kvs \<longrightarrow>
               (line_spec (k, v) = k @ ''='' @ v)
                 = (space \<notin> set v \<and> dquote \<notin> set v \<and> squote \<notin> set v \<and> newline \<notin> set v
                    \<and> dollar \<notin> set v)
             \<and> (line_spec (k, v) \<noteq> k @ ''='' @ v \<longrightarrow>
                   line_spec (k, v) = k @ ''='' @ [dquote] @ escape_spec v @ [dquote]))
         \<and> last (join [newline] (header e (toISOString (now h')) @ map line_spec kvs) @ [newline])
             = newline"
proof (intro conjI allI impI)
  from assms show "generateEnvFile net toISOString p e this h
           = (Inr (join [newline] (header e (toISOString (now h')) @ map line_spec kvs) @ [newline]),
              this', h')"
    by (simp add: generateEnvFile_def iterate_def secret_lines_typed)
next
  fix k v
  show "(line_spec (k, v) = k @ ''='' @ v)
          = (space \<notin> set v \<and> dquote \<notin> set v \<and> squote \<notin> set v \<and> newline \<notin> set v
             \<and> dollar \<notin> set v)"
    using line_spec_unquoted [of k v] by (simp add: special_def)
  assume "line_spec (k, v) \<noteq> k @ ''='' @ v"
  then show "line_spec (k, v) = k @ ''='' @ [dquote] @ escape_spec v @ [dquote]"
    by (simp add: line_spec_def split: if_splits)
qed simp

text \<open>
  The values of the repository's tests: \<open>price=$100\<close>, \<open>hello world\<close>, \<open>no_special\<close>
  and \<open>say "hello"\<close>.
\<close>

theorem env_file_witness:
  "exportSecrets (always (reply 200 ''OK'' (Inr (JObj [(''data'', JArr four_secrets)]))) 1200)
      ''proj'' ''prod'' client0 host0
     = (Inr (JArr four_secrets), client0, \<lparr>sent = [export_request], now = 1200\<rparr>)
   \<and> map as_secret four_secrets = map Some four_pairs
   \<and> generateEnvFile (always (reply 200 ''OK'' (Inr (JObj [(''data'', JArr four_secrets)]))) 1200)
        stamp ''proj'' ''prod'' client0 host0
     = (Inr (join [newline]
               ([''# Generated by KeyEnv'', ''# Environment: prod'',
                 ''# Generated at: 2026-01-01T00:00:01.200Z'', []] @ four_lines) @ [newline]),
        client0, \<lparr>sent = [export_request], now = 1200\<rparr>)
   \<and> (''SIMPLE'', ''no_special'') \<in> set four_pairs
   \<and> line_spec (''SIMPLE'', ''no_special'') = ''SIMPLE=no_special''
   \<and> (''DOLLAR_VAR'', ''price=$100'') \<in> set four_pairs
   \<and> line_spec (''DOLLAR_VAR'', ''price=$100'') \<noteq> ''DOLLAR_VAR=price=$100''
   \<and> line_spec (''DOLLAR_VAR'', ''price=$100'')
       = ''DOLLAR_VAR='' @ [dquote] @ escape_spec ''price=$100'' @ [dquote]"
proof -
  have run: "exportSecrets (always (reply 200 ''OK'' (Inr (JObj [(''data'', JArr four_secrets)]))) 1200)
      ''proj'' ''prod'' client0 host0
     = (Inr (JArr four_secrets), client0, \<lparr>sent = [export_request], now = 1200\<rparr>)"
    by (simp add: exportSecrets_def export_fetch_def request_200 get_prop_def nullish_def
        client0_def host0_def export_request_def wire_def)
  have typed: "map as_secret four_secrets = map Some four_pairs"
    by (simp add: four_secrets_def four_pairs_def as_secret_def)
  have lines: "map line_spec four_pairs = four_lines"
    by (simp add: four_pairs_def four_lines_def line_spec_def special_def escape_spec_def
        space_def dquote_def squote_def newline_def dollar_def backslash_def)
  have mem: "(''SIMPLE'', ''no_special'') \<in> set four_pairs"
    "(''DOLLAR_VAR'', ''price=$100'') \<in> set four_pairs"
    by (simp_all add: four_pairs_def)
  have plain: "space \<notin> set ''no_special'' \<and> dquote \<notin> set ''no_special''
      \<and> squote \<notin> set ''no_special'' \<and> newline \<notin> set ''no_special''
      \<and> dollar \<notin> set ''no_special''"
    by (simp add: space_def dquote_def squote_def newline_def dollar_def)
  have money: "dollar \<in> set ''price=$100''"
    by (simp add: dollar_def)
  note w = env_file [OF run typed, where toISOString = stamp]
  from w have doc: "generateEnvFile (always (reply 200 ''OK'' (Inr (JObj [(''data'', JArr four_secrets)]))) 1200)
        stamp ''proj'' ''prod'' client0 host0
     = (Inr (join [newline]
               ([''# Generated by KeyEnv'', ''# Environment: prod'',
                 ''# Generated at: 2026-01-01T00:00:01.200Z'', []] @ four_lines) @ [newline]),
        client0, \<lparr>sent = [export_request], now = 1200\<rparr>)"
    by (simp add: lines header_def stamp_def)
  note simple = w [THEN conjunct2, THEN conjunct1, rule_format, OF mem(1)]
  note money' = w [THEN conjunct2, THEN conjunct1, rule_format, OF mem(2)]
  from simple plain have "line_spec (''SIMPLE'', ''no_special'') = ''SIMPLE'' @ ''='' @ ''no_special''"
    by blast
  then have l1: "line_spec (''SIMPLE'', ''no_special'') = ''SIMPLE=no_special''"
    by simp
  from money' money have l2': "line_spec (''DOLLAR_VAR'', ''price=$100'')
       \<noteq> ''DOLLAR_VAR'' @ ''='' @ ''price=$100''"
    by blast
  then have l2: "line_spec (''DOLLAR_VAR'', ''price=$100'') \<noteq> ''DOLLAR_VAR=price=$100''"
    by simp
  from money' l2' have "line_spec (''DOLLAR_VAR'', ''price=$100'')
       = ''DOLLAR_VAR'' @ ''='' @ [dquote] @ escape_spec ''price=$100'' @ [dquote]"
    by blast
  then have l3: "line_spec (''DOLLAR_VAR'', ''price=$100'')
       = ''DOLLAR_VAR='' @ [dquote] @ escape_spec ''price=$100'' @ [dquote]"
    by simp
  from run typed doc mem l1 l2 l3 show ?thesis
    by simp
qed

subsection \<open>C8: the wire names of the permission bodies\<close>

text \<open>
  C8. \<open>bulkSetPermissions\<close> sends one PUT whose body holds, under \<open>permissions\<close>, one
  object \<open>{user_id, role}\<close> per item \<open>{userId, role}\<close> of the caller, in order;
  \<open>setProjectDefaults\<close> sends one PUT whose body holds, under \<open>defaults\<close>, one object
  \<open>{environment_name, default_role}\<close> per item \<open>{environmentName, defaultRole}\<close>. Every
  property name in either body is one of these snake_case names; none has a capital
  letter, so no camelCase name occurs.
\<close>

theorem wire_field_names:
  "sent (snd (snd (bulkSetPermissions net p e ps this h)))
     = sent h @ [wire this ''PUT'' (environment_path p e @ ''/permissions'') (permissions_body ps)]
   \<and> body (wire this ''PUT'' (environment_path p e @ ''/permissions'') (permissions_body ps))
     = Some (JObj [(''permissions'',
               JArr (map (\<lambda>q. JObj [(''user_id'', JStr (userId q)), (''role'', role_json (role q))]) ps))])
   \<and> (\<forall>n \<in> set (field_names (permissions_body ps)).
         n \<in> {''permissions'', ''user_id'', ''role''} \<and> \<not> has_capital n)
   \<and> sent (snd (snd (setProjectDefaults net p ds this h)))
     = sent h @ [wire this ''PUT'' (''/api/v1/projects/'' @ p @ ''/permissions/defaults'') (defaults_body ds)]
   \<and> body (wire this ''PUT'' (''/api/v1/projects/'' @ p @ ''/permissions/defaults'') (defaults_body ds))
     = Some (JObj [(''defaults'',
               JArr (map (\<lambda>d. JObj [(''environment_name'', JStr (environmentName d)),
                                     (''default_role'', role_json (defaultRole d))]) ds))])
   \<and> (\<forall>n \<in> set (field_names (defaults_body ds)).
         n \<in> {''defaults'', ''environment_name'', ''default_role''} \<and> \<not> has_capital n)"
proof -
  have caps: "\<not> has_capital ''permissions''" "\<not> has_capital ''user_id''" "\<not> has_capital ''role''"
    "\<not> has_capital ''defaults''" "\<not> has_capital ''environment_name''"
    "\<not> has_capital ''default_role''"
    by (simp_all add: has_capital_def)
  have b1: "body (wire this ''PUT'' (environment_path p e @ ''/permissions'') (permissions_body ps))
     = Some (permissions_body ps)"
    by (simp add: wire_def permissions_body_def)
  have b2: "body (wire this ''PUT'' (''/api/v1/projects/'' @ p @ ''/permissions/defaults'') (defaults_body ds))
     = Some (defaults_body ds)"
    by (simp add: wire_def defaults_body_def)
  have n1: "\<forall>n \<in> set (field_names (permissions_body ps)).
         n \<in> {''permissions'', ''user_id'', ''role''} \<and> \<not> has_capital n"
    using caps by (auto simp: field_names_permissions)
  have n2: "\<forall>n \<in> set (field_names (defaults_body ds)).
         n \<in> {''defaults'', ''environment_name'', ''default_role''} \<and> \<not> has_capital n"
    using caps by (auto simp: field_names_defaults)
  show ?thesis
    using n1 n2 b1 b2
    by (simp add: bulkSetPermissions_def setProjectDefaults_def returns_data_sent
        permissions_body_def [symmetric] defaults_body_def [symmetric])
qed

text \<open>The two lists of the examples in the code's documentation.\<close>

theorem wire_field_names_witness:
  "''user_id'' \<in> set (field_names (permissions_body two_users))
   \<and> \<not> has_capital ''user_id''
   \<and> ''environment_name'' \<in> set (field_names (defaults_body two_defaults))
   \<and> \<not> has_capital ''environment_name''
   \<and> has_capital ''userId'' \<and> has_capital ''environmentName''
   \<and> ''userId'' \<notin> set (field_names (permissions_body two_users))
   \<and> ''environmentName'' \<notin> set (field_names (defaults_body two_defaults))
   \<and> map body (sent (snd (snd (bulkSetPermissions net_up ''proj'' ''prod'' two_users client0 host0))))
     = [Some (JObj [(''permissions'',
               JArr [JObj [(''user_id'', JStr ''user-1''), (''role'', JStr ''write'')],
                     JObj [(''user_id'', JStr ''user-2''), (''role'', JStr ''read'')]])])]
   \<and> map body (sent (snd (snd (setProjectDefaults net_up ''proj'' two_defaults client0 host0))))
     = [Some (JObj [(''defaults'',
               JArr [JObj [(''environment_name'', JStr ''development''), (''default_role'', JStr ''write'')],
                     JObj [(''environment_name'', JStr ''production''), (''default_role'', JStr ''read'')]])])]"
proof -
  note w = wire_field_names [where net = net_up and p = "''proj''" and e = "''prod''"
      and ps = two_users and ds = two_defaults and this = client0 and h = host0]
  have m1: "''user_id'' \<in> set (field_names (permissions_body two_users))"
    by (simp add: field_names_permissions two_users_def)
  have m2: "''environment_name'' \<in> set (field_names (defaults_body two_defaults))"
    by (simp add: field_names_defaults two_defaults_def)
  have c: "has_capital ''userId''" "has_capital ''environmentName''"
    by (simp_all add: has_capital_def)
  from w m1 have a1: "\<not> has_capital ''user_id''" by blast
  from w m2 have a2: "\<not> has_capital ''environment_name''" by blast
  from w c have a3: "''userId'' \<notin> set (field_names (permissions_body two_users))" by blast
  from w c have a4: "''environmentName'' \<notin> set (field_names (defaults_body two_defaults))" by blast
  from w have s1: "map body (sent (snd (snd (bulkSetPermissions net_up ''proj'' ''prod'' two_users client0 host0))))
     = [Some (JObj [(''permissions'',
               JArr [JObj [(''user_id'', JStr ''user-1''), (''role'', JStr ''write'')],
                     JObj [(''user_id'', JStr ''user-2''), (''role'', JStr ''read'')]])])]"
    by (simp add: host0_def two_users_def)
  from w have s2: "map body (sent (snd (snd (setProjectDefaults net_up ''proj'' two_defaults client0 host0))))
     = [Some (JObj [(''defaults'',
               JArr [JObj [(''environment_name'', JStr ''development''), (''default_role'', JStr ''write'')],
                     JObj [(''environment_name'', JStr ''production''), (''default_role'', JStr ''read'')]])])]"
    by (simp add: host0_def two_defaults_def)
  from m1 m2 c a1 a2 a3 a4 s1 s2 show ?thesis
    by simp
qed

subsection \<open>C9: the export as an object\<close>

text \<open>
  C9. Let \<open>exportSecrets\<close> return a list of secrets whose keys and values are the
  strings \<open>kvs\<close>. Then \<open>exportSecretsAsObject\<close> returns an object that has each key of
  the list once and no other property, and binds each key to the value of its last
  occurrence in the list.
\<close>

theorem secrets_object:
  assumes "exportSecrets net p e this h = (Inr (JArr xs), this', h')"
    and "map as_secret xs = map Some kvs"
  shows "exportSecretsAsObject net p e this h = (Inr (JObj (object_fields kvs)), this', h')
         \<and> distinct (map fst (object_fields kvs))
         \<and> fst ` set (object_fields kvs) = fst ` set kvs
         \<and> (\<forall>k. map_of (object_fields kvs) k = map_option JStr (map_of (rev kvs) k))
         \<and> (\<forall>pre k v post. kvs = pre @ (k, v) # post \<longrightarrow> k \<notin> fst ` set post \<longrightarrow>
               member (JObj (object_fields kvs)) k = JStr v)"
proof (intro conjI allI impI)
  from assms show "exportSecretsAsObject net p e this h = (Inr (JObj (object_fields kvs)), this', h')"
    by (simp add: exportSecretsAsObject_def secrets_map_def entries_typed fromEntries_typed)
  show "distinct (map fst (object_fields kvs))"
    by (simp add: object_fields_def fold_update_distinct)
  show "fst ` set (object_fields kvs) = fst ` set kvs"
  proof -
    have "dom (map_of (object_fields kvs)) = dom (map_of (rev kvs))"
      by (auto simp: object_fields_map_of dom_def)
    then show ?thesis by (simp add: dom_map_of_conv_image_fst)
  qed
  show "map_of (object_fields kvs) k = map_option JStr (map_of (rev kvs) k)" for k
    by (rule object_fields_map_of)
  show "member (JObj (object_fields kvs)) k = JStr v"
    if "kvs = pre @ (k, v) # post" and "k \<notin> fst ` set post" for pre k v post
    using object_fields_last [OF that] by simp
qed

text \<open>A list in which \<open>API_KEY\<close> occurs first and last.\<close>

theorem secrets_object_witness:
  "exportSecrets (always (reply 200 ''OK'' (Inr (JObj [(''data'', JArr duplicate_keys)]))) 1200)
      ''proj'' ''prod'' client0 host0
     = (Inr (JArr duplicate_keys), client0, \<lparr>sent = [export_request], now = 1200\<rparr>)
   \<and> map as_secret duplicate_keys = map Some duplicate_pairs
   \<and> exportSecretsAsObject (always (reply 200 ''OK'' (Inr (JObj [(''data'', JArr duplicate_keys)]))) 1200)
        ''proj'' ''prod'' client0 host0
     = (Inr (JObj [(''API_KEY'', JStr ''last''), (''DATABASE_URL'', JStr ''postgres://localhost'')]),
        client0, \<lparr>sent = [export_request], now = 1200\<rparr>)
   \<and> duplicate_pairs = [(''API_KEY'', ''first''), (''DATABASE_URL'', ''postgres://localhost'')]
                          @ (''API_KEY'', ''last'') # []
   \<and> ''API_KEY'' \<notin> fst ` set ([] :: (string \<times> string) list)
   \<and> member (JObj (object_fields duplicate_pairs)) ''API_KEY'' = JStr ''last''"
proof -
  have run: "exportSecrets (always (reply 200 ''OK'' (Inr (JObj [(''data'', JArr duplicate_keys)]))) 1200)
      ''proj'' ''prod'' client0 host0
     = (Inr (JArr duplicate_keys), client0, \<lparr>sent = [export_request], now = 1200\<rparr>)"
    by (simp add: exportSecrets_def export_fetch_def request_200 get_prop_def nullish_def
        client0_def host0_def export_request_def wire_def)
  have typed: "map as_secret duplicate_keys = map Some duplicate_pairs"
    by (simp add: duplicate_keys_def duplicate_pairs_def as_secret_def)
  have obj: "object_fields duplicate_pairs
      = [(''API_KEY'', JStr ''last''), (''DATABASE_URL'', JStr ''postgres://localhost'')]"
    by (simp add: object_fields_def duplicate_pairs_def)
  have split: "duplicate_pairs = [(''API_KEY'', ''first''), (''DATABASE_URL'', ''postgres://localhost'')]
                          @ (''API_KEY'', ''last'') # []"
    by (simp add: duplicate_pairs_def)
  have none: "''API_KEY'' \<notin> fst ` set ([] :: (string \<times> string) list)"
    by simp
  note w = secrets_object [OF run typed]
  from w obj have r: "exportSecretsAsObject (always (reply 200 ''OK'' (Inr (JObj [(''data'', JArr duplicate_keys)]))) 1200)
        ''proj'' ''prod'' client0 host0
     = (Inr (JObj [(''API_KEY'', JStr ''last''), (''DATABASE_URL'', JStr ''postgres://localhost'')]),
        client0, \<lparr>sent = [export_request], now = 1200\<rparr>)"
    by simp
  from w split none have l: "member (JObj (object_fields duplicate_pairs)) ''API_KEY'' = JStr ''last''"
    by blast
  from run typed r split none l show ?thesis
    by simp
qed

subsection \<open>C10: operations that leave the export cache alone\<close>

text \<open>
  C10. Whatever their outcome, \<open>deleteEnvironment\<close>, \<open>deleteProject\<close>,
  \<open>setPermission\<close>, \<open>deletePermission\<close>, \<open>bulkSetPermissions\<close> and \<open>setProjectDefaults\<close>
  leave the cache as it was; and with a positive TTL, an entry of any pair (of the
  deleted project or environment too) whose expiry lies after the clock's reading at a
  later \<open>exportSecrets\<close> call is what that call returns, without a request.
\<close>

theorem permissions_leave_cache:
  "\<forall>this' \<in> set [fst (snd (deleteEnvironment net p e this h)),
                   fst (snd (deleteProject net p this h)),
                   fst (snd (setPermission net p e u r this h)),
                   fst (snd (deletePermission net p e u this h)),
                   fst (snd (bulkSetPermissions net p e ps this h)),
                   fst (snd (setProjectDefaults net p ds this h))].
     secretsCache this' = secretsCache this
     \<and> (0 < cacheTtl this \<longrightarrow>
          (\<forall>c. map_of (secretsCache this) (getCacheKey p' e') = Some c \<longrightarrow> now h2 < expiresAt c \<longrightarrow>
             exportSecrets net2 p' e' this' h2 = (Inr (secrets c), this', h2)))"
  by (simp add: deleteEnvironment_def deleteProject_def setPermission_def deletePermission_def
        bulkSetPermissions_def setProjectDefaults_def exportSecrets_fresh)

text \<open>
  The six operations on a client that holds an entry for the pair, each followed by an
  export at clock 2000 while the network is down.
\<close>

theorem permissions_leave_cache_witness:
  "0 < cacheTtl cached300
   \<and> map_of (secretsCache cached300) (getCacheKey ''proj'' ''prod'')
       = Some \<lparr>secrets = exported, expiresAt = 301200\<rparr>
   \<and> now \<lparr>sent = [], now = 2000\<rparr> < expiresAt \<lparr>secrets = exported, expiresAt = 301200\<rparr>
   \<and> secretsCache (fst (snd (deleteEnvironment net_up ''proj'' ''prod'' cached300 host0)))
       = secretsCache cached300
   \<and> exportSecrets net_down ''proj'' ''prod''
        (fst (snd (deleteEnvironment net_up ''proj'' ''prod'' cached300 host0))) \<lparr>sent = [], now = 2000\<rparr>
       = (Inr exported, fst (snd (deleteEnvironment net_up ''proj'' ''prod'' cached300 host0)),
          \<lparr>sent = [], now = 2000\<rparr>)
   \<and> exportSecrets net_down ''proj'' ''prod''
        (fst (snd (deleteProject net_up ''proj'' cached300 host0))) \<lparr>sent = [], now = 2000\<rparr>
       = (Inr exported, fst (snd (deleteProject net_up ''proj'' cached300 host0)),
          \<lparr>sent = [], now = 2000\<rparr>)
   \<and> exportSecrets net_down ''proj'' ''prod''
        (fst (snd (setPermission net_up ''proj'' ''prod'' ''user-1'' Role_write cached300 host0)))
        \<lparr>sent = [], now = 2000\<rparr>
       = (Inr exported,
          fst (snd (setPermission net_up ''proj'' ''prod'' ''user-1'' Role_write cached300 host0)),
          \<lparr>sent = [], now = 2000\<rparr>)
   \<and> exportSecrets net_down ''proj'' ''prod''
        (fst (snd (deletePermission net_up ''proj'' ''prod'' ''user-1'' cached300 host0)))
        \<lparr>sent = [], now = 2000\<rparr>
       = (Inr exported,
          fst (snd (deletePermission net_up ''proj'' ''prod'' ''user-1'' cached300 host0)),
          \<lparr>sent = [], now = 2000\<rparr>)
   \<and> exportSecrets net_down ''proj'' ''prod''
        (fst (snd (bulkSetPermissions net_up ''proj'' ''prod'' two_users cached300 host0)))
        \<lparr>sent = [], now = 2000\<rparr>
       = (Inr exported,
          fst (snd (bulkSetPermissions net_up ''proj'' ''prod'' two_users cached300 host0)),
          \<lparr>sent = [], now = 2000\<rparr>)
   \<and> exportSecrets net_down ''proj'' ''prod''
        (fst (snd (setProjectDefaults net_up ''proj'' two_defaults cached300 host0)))
        \<lparr>sent = [], now = 2000\<rparr>
       = (Inr exported,
          fst (snd (setProjectDefaults net_up ''proj'' two_defaults cached300 host0)),
          \<lparr>sent = [], now = 2000\<rparr>)"
proof -
  have t: "0 < cacheTtl cached300"
    by (simp add: cached300_def client300_def)
  have m: "map_of (secretsCache cached300) (getCacheKey ''proj'' ''prod'')
       = Some \<lparr>secrets = exported, expiresAt = 301200\<rparr>"
    by (simp add: cached300_def getCacheKey_def)
  have n: "now \<lparr>sent = [], now = 2000\<rparr> < expiresAt \<lparr>secrets = exported, expiresAt = 301200\<rparr>"
    by simp
  note w = permissions_leave_cache [where net = net_up and p = "''proj''" and e = "''prod''"
      and this = cached300 and h = host0 and u = "''user-1''" and r = Role_write
      and ps = two_users and ds = two_defaults and p' = "''proj''" and e' = "''prod''"
      and ?h2.0 = "\<lparr>sent = [], now = 2000\<rparr>" and ?net2.0 = net_down]
  from w t m n show ?thesis
    by simp
qed

end
